theory Spec2Isabelle
  imports Main "HOL-Library.Word"
begin

section \<open>Python values used by \<^verbatim>\<open>app.py\<close>\<close>

text \<open>
  A Python \<^verbatim>\<open>str\<close> is modelled by the bytes of its UTF-8 encoding (an Isabelle
  \<open>string\<close>).

  Exceptions: \<open>Exception msg\<close> is an exception of class \<^verbatim>\<open>Exception\<close> (or of a
  subclass of it), \<open>msg\<close> being what \<^verbatim>\<open>str(e)\<close> yields; \<open>KeyboardInterrupt\<close> and
  \<open>SystemExit\<close> are the exceptions that derive from \<^verbatim>\<open>BaseException\<close> only. Every
  handler of the program is \<^verbatim>\<open>except Exception as e\<close>: it handles the former, using
  nothing of \<open>e\<close> but its text, and lets the latter pass.
\<close>

datatype exn = Exception string | KeyboardInterrupt | SystemExit

fun is_Exception :: "exn \<Rightarrow> bool" where
  "is_Exception (Exception msg) = True"
| "is_Exception KeyboardInterrupt = False"
| "is_Exception SystemExit = False"

text \<open>
  \<^verbatim>\<open>except Exception as e: return handler(str(e))\<close>, when \<open>e\<close> was raised inside the
  \<^verbatim>\<open>try\<close>: \<open>Inr\<close> is the value returned, \<open>Inl\<close> the exception that propagates.
\<close>

fun except_Exception :: "exn \<Rightarrow> (string \<Rightarrow> 'a) \<Rightarrow> exn + 'a" where
  "except_Exception (Exception msg) handler = Inr (handler msg)"
| "except_Exception KeyboardInterrupt handler = Inl KeyboardInterrupt"
| "except_Exception SystemExit handler = Inl SystemExit"

text \<open>
  The cells of a \<^verbatim>\<open>pandas.DataFrame\<close>: a text (\<^verbatim>\<open>str\<close>), an integer, \<^verbatim>\<open>None\<close> or
  \<^verbatim>\<open>NaN\<close>. The spreadsheet service returns every cell as a text; \<^verbatim>\<open>pd.read_excel\<close>
  infers the type of a column from its content.
\<close>

datatype cell = Text string | Number int | NoneValue | NaN

text \<open>
  The objects the program passes around as "data": a \<^verbatim>\<open>pandas.DataFrame\<close> (its column
  labels and its rows of cells) or a plain list of rows of texts. Objects live in a store
  and are passed by reference, as in Python; \<open>PyNone\<close> is \<^verbatim>\<open>None\<close>.
\<close>

datatype pyobj =
    DataFrame "string list" "cell list list"
  | PyList "string list list"

datatype pyval = PyNone | PyRef nat

text \<open>The rows of a snapshot, header first.\<close>

fun cells :: "pyobj \<Rightarrow> cell list list" where
  "cells (DataFrame cols rws) = map Text cols # rws"
| "cells (PyList xs) = map (map Text) xs"

text \<open>Truthiness of an optional string: \<^verbatim>\<open>None\<close> and \<^verbatim>\<open>""\<close> are false.\<close>

fun truthy :: "string option \<Rightarrow> bool" where
  "truthy None = False"
| "truthy (Some s) = (s \<noteq> [])"

text \<open>An optional string inside an f-string.\<close>

fun fstr :: "string option \<Rightarrow> string" where
  "fstr None = ''None''"
| "fstr (Some s) = s"

text \<open>\<^verbatim>\<open>str(n)\<close> for an integer (HTTP status codes, cell counts, integer cells).\<close>

definition digit_char :: "nat \<Rightarrow> char" where
  "digit_char d = ''0123456789'' ! d"

fun str_nat :: "nat \<Rightarrow> string" where
  "str_nat n = (if n < 10 then [digit_char n] else str_nat (n div 10) @ [digit_char (n mod 10)])"

declare str_nat.simps [simp del]

definition str_int :: "int \<Rightarrow> string" where
  "str_int i = (if i < 0 then ''-'' @ str_nat (nat (- i)) else str_nat (nat i))"

text \<open>\<^verbatim>\<open>sep.join(xs)\<close>.\<close>

fun join :: "string \<Rightarrow> string list \<Rightarrow> string" where
  "join sep [] = []"
| "join sep [x] = x"
| "join sep (x # y # ys) = x @ sep @ join sep (y # ys)"

text \<open>The arrow U+2192 of the program's messages, in UTF-8.\<close>

definition rarrow :: string where
  "rarrow = [CHR 0xE2, CHR 0x86, CHR 0x92]"

section \<open>Library functions\<close>

text \<open>
  The functions of pandas, hashlib and the string type that the program calls are not part
  of the repository; they are parameters of the model. Those that may raise return
  \<open>Inl\<close> of the exception.

  \<^item> \<open>pd_DataFrame rows columns\<close>: \<^verbatim>\<open>pd.DataFrame(rows, columns=columns)\<close>, the frame's
    column labels and rows;
  \<^item> \<open>to_string\<close>: \<^verbatim>\<open>DataFrame.to_string()\<close>;
  \<^item> \<open>str_rows\<close>: \<^verbatim>\<open>str(xs)\<close> of a list of rows;
  \<^item> \<open>encode\<close>: \<^verbatim>\<open>str.encode()\<close>, which raises \<^verbatim>\<open>UnicodeEncodeError\<close> on a
    string that has no UTF-8 encoding;
  \<^item> \<open>md5\<close>: the 16-byte digest of \<^verbatim>\<open>hashlib.md5\<close>, read as a 128-bit number;
  \<^item> \<open>to_excel\<close>: \<^verbatim>\<open>DataFrame.to_excel\<close> to the temporary file followed by reading
    that file back, the bytes of the workbook;
  \<^item> \<open>read_excel\<close>: writing the downloaded bytes to the temporary file followed by
    \<^verbatim>\<open>pd.read_excel\<close>.
\<close>

record lib =
  pd_DataFrame :: "string list list \<Rightarrow> string list \<Rightarrow> exn + (string list \<times> cell list list)"
  to_string :: "string list \<Rightarrow> cell list list \<Rightarrow> string"
  str_rows :: "string list list \<Rightarrow> string"
  encode :: "string \<Rightarrow> exn + string"
  md5 :: "string \<Rightarrow> 128 word"
  to_excel :: "string list \<Rightarrow> cell list list \<Rightarrow> exn + string"
  read_excel :: "string \<Rightarrow> exn + (string list \<times> cell list list)"

text \<open>\<^verbatim>\<open>hexdigest()\<close>: the digest as 32 lower-case hexadecimal digits.\<close>

definition hex_char :: "nat \<Rightarrow> char" where
  "hex_char d = ''0123456789abcdef'' ! d"

fun hex_digits :: "nat \<Rightarrow> nat \<Rightarrow> string" where
  "hex_digits 0 k = []"
| "hex_digits (Suc n) k = hex_digits n (k div 16) @ [hex_char (k mod 16)]"

definition hexdigest :: "128 word \<Rightarrow> string" where
  "hexdigest d = hex_digits 32 (unat d)"

section \<open>The sync manager and the world it talks to\<close>

text \<open>
  \<^verbatim>\<open>DataSyncManager\<close> holds two handles, each \<^verbatim>\<open>None\<close> when its initialisation
  failed.
\<close>

record manager =
  google_service :: "unit option"
  msal_app :: "unit option"

text \<open>
  The calls of the collaborator operations are recorded in a trace (instrumentation of
  the model: each of the four read and write methods appends its call on entry).
\<close>

datatype call = ReadA | ReadB | WriteA pyval | WriteB pyval

text \<open>
  The world: the object store of the process, the trace, and the two remote services.
  \<open>tick\<close> counts the requests made so far; the answer of a service to a request may
  depend on when it is made.

  \<^item> \<open>sheet_values\<close>: the \<^verbatim>\<open>'values'\<close> entry of the spreadsheet's reply to a read of
    the range (absent for an empty range);
  \<^item> \<open>sheets_execute t\<close>: whether \<^verbatim>\<open>.execute()\<close> of a spreadsheet request raises at
    time \<open>t\<close>, and otherwise the \<^verbatim>\<open>'updatedCells'\<close> entry of the reply, if it has one;
  \<^item> \<open>sheets_formatted\<close>: the text under which the spreadsheet service returns a value
    that was written to it;
  \<^item> \<open>get_accounts\<close>, \<open>acquire_token_silent\<close>, \<open>acquire_token_for_client\<close>: the
    answers of the MSAL application. A token reply is a dictionary, modelled by its
    \<^verbatim>\<open>"access_token"\<close> entry if it has one; the silent acquisition may also return
    \<^verbatim>\<open>None\<close>;
  \<^item> \<open>drive_file\<close>: the content of the workbook file;
  \<^item> \<open>requests_get\<close>, \<open>requests_put\<close>: whether the HTTP request raises at time
    \<open>t\<close>, and otherwise its status code. A download answered with 200 carries the
    content of the file; an upload answered with 200 or 201 replaces it.
\<close>

record world =
  store :: "nat \<Rightarrow> pyobj"
  next_ref :: nat
  calls :: "call list"
  tick :: nat
  sheet_values :: "string list list option"
  sheets_execute :: "nat \<Rightarrow> exn + nat option"
  sheets_formatted :: "cell \<Rightarrow> string"
  get_accounts :: "nat \<Rightarrow> exn + string list"
  acquire_token_silent :: "nat \<Rightarrow> exn + string option option"
  acquire_token_for_client :: "nat \<Rightarrow> exn + string option"
  drive_file :: string
  requests_get :: "nat \<Rightarrow> exn + nat"
  requests_put :: "nat \<Rightarrow> exn + nat"

definition new_object :: "pyobj \<Rightarrow> world \<Rightarrow> nat \<times> world" where
  "new_object ob w =
     (next_ref w, w\<lparr>store := (store w)(next_ref w := ob), next_ref := Suc (next_ref w)\<rparr>)"

definition request_made :: "world \<Rightarrow> world" where
  "request_made w = w\<lparr>tick := Suc (tick w)\<rparr>"

definition called :: "call \<Rightarrow> world \<Rightarrow> world" where
  "called c w = w\<lparr>calls := calls w @ [c]\<rparr>"

section \<open>Initialisation and status\<close>

text \<open>
  What \<^verbatim>\<open>__init__\<close> meets at startup: whether \<^verbatim>\<open>credentials.json\<close> exists, and
  whether loading the credentials, building the Sheets service and constructing the MSAL
  application raise (the text of the exception of class \<^verbatim>\<open>Exception\<close>; an exception
  of another class ends the startup, and then there is no manager and no request).
\<close>

record startup =
  credentials_exist :: bool
  credentials_fault :: "string option"
  build_fault :: "string option"
  msal_fault :: "string option"

definition init_google_service :: "startup \<Rightarrow> unit option" where
  "init_google_service s =
     (if \<not> credentials_exist s then None
      else case credentials_fault s of
        Some e \<Rightarrow> None
      | None \<Rightarrow> (case build_fault s of Some e \<Rightarrow> None | None \<Rightarrow> Some ()))"

definition init_msal_app :: "startup \<Rightarrow> unit option" where
  "init_msal_app s = (case msal_fault s of Some e \<Rightarrow> None | None \<Rightarrow> Some ())"

definition DataSyncManager :: "startup \<Rightarrow> manager" where
  "DataSyncManager s =
     \<lparr>google_service = init_google_service s, msal_app = init_msal_app s\<rparr>"

text \<open>
  The handler of \<^verbatim>\<open>GET /status\<close>; the JSON object is an association list, and
  \<open>now\<close> is \<^verbatim>\<open>datetime.now().isoformat()\<close>.
\<close>

definition status :: "manager \<Rightarrow> string \<Rightarrow> (string \<times> string) list" where
  "status m now =
     (let google_status = (if google_service m \<noteq> None then ''OK'' else ''Not configured'');
          msal_status = (if msal_app m \<noteq> None then ''OK'' else ''Not configured'')
      in [(''google_sheets'', google_status), (''onedrive'', msal_status), (''timestamp'', now)])"

section \<open>The methods of \<^verbatim>\<open>DataSyncManager\<close>\<close>

text \<open>
  Every method takes the world and returns its outcome with the world after the call:
  \<open>Inr\<close> of the value it returns, or \<open>Inl\<close> of the exception that leaves it. Output to
  the console (\<^verbatim>\<open>print\<close>) is not modelled.
\<close>

definition acquire_for_client :: "world \<Rightarrow> (exn + string option) \<times> world" where
  "acquire_for_client w =
     (case acquire_token_for_client w (tick w) of
        Inl e \<Rightarrow> (except_Exception e (\<lambda>msg. None), request_made w)
      | Inr result \<Rightarrow> (Inr result, request_made w))"

definition get_access_token :: "manager \<Rightarrow> world \<Rightarrow> (exn + string option) \<times> world" where
  "get_access_token m w =
     (if msal_app m = None then (Inr None, w)
      else case get_accounts w (tick w) of
        Inl e \<Rightarrow> (except_Exception e (\<lambda>msg. None), request_made w)
      | Inr accounts \<Rightarrow>
          let w1 = request_made w in
          if accounts \<noteq> [] then
            (case acquire_token_silent w1 (tick w1) of
               Inl e \<Rightarrow> (except_Exception e (\<lambda>msg. None), request_made w1)
             | Inr (Some (Some token)) \<Rightarrow> (Inr (Some token), request_made w1)
             | Inr _ \<Rightarrow> acquire_for_client (request_made w1))
          else acquire_for_client w1)"

definition read_google_sheets_data ::
  "lib \<Rightarrow> manager \<Rightarrow> world \<Rightarrow> (exn + pyval \<times> string option) \<times> world" where
  "read_google_sheets_data L m w0 =
     (let w = called ReadA w0 in
      if google_service m = None then
        (Inr (PyNone, Some ''Google Sheets service not initialized''), w)
      else case sheets_execute w (tick w) of
        Inl e \<Rightarrow>
          (except_Exception e (\<lambda>msg. (PyNone, Some (''Error reading Google Sheets: '' @ msg))),
           request_made w)
      | Inr _ \<Rightarrow>
          let w1 = request_made w;
              vals = (case sheet_values w1 of None \<Rightarrow> [] | Some v \<Rightarrow> v)
          in (case vals of
                [] \<Rightarrow>
                  let (r, w2) = new_object (PyList []) w1
                  in (Inr (PyRef r, Some ''No data found in Google Sheets''), w2)
              | header # rws \<Rightarrow>
                  (case pd_DataFrame L rws header of
                     Inl e \<Rightarrow>
                       (except_Exception e
                          (\<lambda>msg. (PyNone, Some (''Error reading Google Sheets: '' @ msg))), w1)
                   | Inr (cols, rs) \<Rightarrow>
                       let (r, w2) = new_object (DataFrame cols rs) w1
                       in (Inr (PyRef r, None), w2))))"

text \<open>
  The rows that \<^verbatim>\<open>write_google_sheets_data\<close> sends: the header and rows of a frame,
  anything else as it is (\<^verbatim>\<open>None\<close> is sent as JSON \<^verbatim>\<open>null\<close>).
\<close>

definition body_values :: "pyval \<Rightarrow> world \<Rightarrow> cell list list option" where
  "body_values data w =
     (case data of
        PyNone \<Rightarrow> None
      | PyRef r \<Rightarrow> Some (cells (store w r)))"

definition write_google_sheets_data ::
  "lib \<Rightarrow> manager \<Rightarrow> pyval \<Rightarrow> world \<Rightarrow> (exn + bool \<times> string) \<times> world" where
  "write_google_sheets_data L m data w0 =
     (let w = called (WriteA data) w0 in
      if google_service m = None then (Inr (False, ''Google Sheets service not initialized''), w)
      else
        let vals = body_values data w in
        case sheets_execute w (tick w) of
          Inl e \<Rightarrow>
            (except_Exception e (\<lambda>msg. (False, ''Error writing to Google Sheets: '' @ msg)),
             request_made w)
        | Inr _ \<Rightarrow>
            let w1 = request_made (w\<lparr>sheet_values := None\<rparr>) in
            (case sheets_execute w1 (tick w1) of
               Inl e \<Rightarrow>
                 (except_Exception e (\<lambda>msg. (False, ''Error writing to Google Sheets: '' @ msg)),
                  request_made w1)
             | Inr result \<Rightarrow>
                 let w2 = request_made
                       (w1\<lparr>sheet_values := map_option (map (map (sheets_formatted w1))) vals\<rparr>);
                     updated = (case result of None \<Rightarrow> 0 | Some n \<Rightarrow> n)
                 in (Inr (True, ''Updated '' @ str_nat updated @ '' cells''), w2)))"

text \<open>
  In the two methods of the workbook file the token is fetched before the \<^verbatim>\<open>try\<close>:
  an exception that leaves \<open>get_access_token\<close> leaves the method.
\<close>

definition read_onedrive_excel_data ::
  "lib \<Rightarrow> manager \<Rightarrow> world \<Rightarrow> (exn + pyval \<times> string option) \<times> world" where
  "read_onedrive_excel_data L m w0 =
     (case get_access_token m (called ReadB w0) of
        (Inl e, w) \<Rightarrow> (Inl e, w)
      | (Inr access_token, w) \<Rightarrow>
          if \<not> truthy access_token then
            (Inr (PyNone, Some ''Failed to get access token for OneDrive''), w)
          else
            (case requests_get w (tick w) of
               Inl e \<Rightarrow>
                 (except_Exception e
                    (\<lambda>msg. (PyNone, Some (''Error reading OneDrive Excel: '' @ msg))),
                  request_made w)
             | Inr status_code \<Rightarrow>
                 let w1 = request_made w in
                 if status_code \<noteq> 200 then
                   (Inr (PyNone, Some (''Error downloading Excel file: '' @ str_nat status_code)),
                    w1)
                 else
                   (case read_excel L (drive_file w1) of
                      Inl e \<Rightarrow>
                        (except_Exception e
                           (\<lambda>msg. (PyNone, Some (''Error reading OneDrive Excel: '' @ msg))), w1)
                    | Inr (cols, rs) \<Rightarrow>
                        let (r, w2) = new_object (DataFrame cols rs) w1
                        in (Inr (PyRef r, None), w2))))"

text \<open>
  The workbook that \<^verbatim>\<open>write_onedrive_excel_data\<close> uploads: a frame is written as it
  is; of anything else a frame is built first from \<^verbatim>\<open>data[1:]\<close> and \<^verbatim>\<open>data[0]\<close>,
  which raises on \<^verbatim>\<open>None\<close> and on the empty list.
\<close>

definition excel_content :: "lib \<Rightarrow> pyval \<Rightarrow> world \<Rightarrow> exn + string" where
  "excel_content L data w =
     (case data of
        PyNone \<Rightarrow>
          Inl (Exception ([CHR 0x27] @ ''NoneType'' @ [CHR 0x27] @ '' object is not subscriptable''))
      | PyRef r \<Rightarrow>
          (case store w r of
             DataFrame cols rws \<Rightarrow> to_excel L cols rws
           | PyList [] \<Rightarrow> Inl (Exception ''list index out of range'')
           | PyList (header # rws) \<Rightarrow>
               (case pd_DataFrame L rws header of
                  Inl e \<Rightarrow> Inl e
                | Inr (cols, rs) \<Rightarrow> to_excel L cols rs)))"

definition write_onedrive_excel_data ::
  "lib \<Rightarrow> manager \<Rightarrow> pyval \<Rightarrow> world \<Rightarrow> (exn + bool \<times> string) \<times> world" where
  "write_onedrive_excel_data L m data w0 =
     (case get_access_token m (called (WriteB data) w0) of
        (Inl e, w) \<Rightarrow> (Inl e, w)
      | (Inr access_token, w) \<Rightarrow>
          if \<not> truthy access_token then
            (Inr (False, ''Failed to get access token for OneDrive''), w)
          else
            (case excel_content L data w of
               Inl e \<Rightarrow>
                 (except_Exception e (\<lambda>msg. (False, ''Error writing to OneDrive Excel: '' @ msg)),
                  w)
             | Inr content \<Rightarrow>
                 (case requests_put w (tick w) of
                    Inl e \<Rightarrow>
                      (except_Exception e
                         (\<lambda>msg. (False, ''Error writing to OneDrive Excel: '' @ msg)),
                       request_made w)
                  | Inr status_code \<Rightarrow>
                      if status_code = 200 \<or> status_code = 201 then
                        (Inr (True, ''Excel file updated successfully''),
                         request_made (w\<lparr>drive_file := content\<rparr>))
                      else
                        (Inr (False, ''Error uploading Excel file: '' @ str_nat status_code),
                         request_made w))))"

text \<open>
  \<^verbatim>\<open>_calculate_data_hash\<close> has no handler of its own: whatever \<open>encode\<close> raises
  leaves it.
\<close>

definition data_str :: "lib \<Rightarrow> pyobj \<Rightarrow> string" where
  "data_str L ob = (case ob of DataFrame cols rws \<Rightarrow> to_string L cols rws | PyList xs \<Rightarrow> str_rows L xs)"

definition data_hash :: "lib \<Rightarrow> string \<Rightarrow> exn + string" where
  "data_hash L s = (case encode L s of Inl e \<Rightarrow> Inl e | Inr b \<Rightarrow> Inr (hexdigest (md5 L b)))"

definition calculate_data_hash :: "lib \<Rightarrow> pyval \<Rightarrow> world \<Rightarrow> (exn + string) \<times> world" where
  "calculate_data_hash L data w =
     (let data_s = (case data of PyNone \<Rightarrow> ''None'' | PyRef r \<Rightarrow> data_str L (store w r))
      in (data_hash L data_s, w))"

text \<open>
  The body of \<^verbatim>\<open>sync_data\<close>, inside its \<^verbatim>\<open>try\<close>: \<open>Inl e\<close> when \<open>e\<close> is raised
  in the body.
\<close>

definition sync_data_body ::
  "lib \<Rightarrow> manager \<Rightarrow> world \<Rightarrow> (exn + bool \<times> string) \<times> world" where
  "sync_data_body L m w =
     (case read_google_sheets_data L m w of
        (Inl e, w1) \<Rightarrow> (Inl e, w1)
      | (Inr (google_data, google_error), w1) \<Rightarrow>
          if truthy google_error then
            (Inr (False, ''Google Sheets error: '' @ fstr google_error), w1)
          else
            (case read_onedrive_excel_data L m w1 of
               (Inl e, w2) \<Rightarrow> (Inl e, w2)
             | (Inr (excel_data, excel_error), w2) \<Rightarrow>
                 if truthy excel_error then
                   (Inr (False, ''OneDrive Excel error: '' @ fstr excel_error), w2)
                 else
                   (case calculate_data_hash L google_data w2 of
                      (Inl e, w3) \<Rightarrow> (Inl e, w3)
                    | (Inr google_hash, w3) \<Rightarrow>
                        (case calculate_data_hash L excel_data w3 of
                           (Inl e, w4) \<Rightarrow> (Inl e, w4)
                         | (Inr excel_hash, w4) \<Rightarrow>
                             if google_hash = excel_hash then
                               (Inr (True, ''No differences found - sync skipped''), w4)
                             else
                               let google_modified = True;
                                   sync_actions = []
                               in if google_modified then
                                    (case write_onedrive_excel_data L m google_data w4 of
                                       (Inl e, w5) \<Rightarrow> (Inl e, w5)
                                     | (Inr (success, message), w5) \<Rightarrow>
                                         if success then
                                           (Inr (True, ''Sync completed: '' @
                                              join '', '' (sync_actions @
                                                [''Google Sheets '' @ rarrow @ '' OneDrive Excel''])),
                                            w5)
                                         else
                                           (Inr (False, ''Failed to sync to Excel: '' @ message), w5))
                                  else
                                    (case write_google_sheets_data L m excel_data w4 of
                                       (Inl e, w5) \<Rightarrow> (Inl e, w5)
                                     | (Inr (success, message), w5) \<Rightarrow>
                                         if success then
                                           (Inr (True, ''Sync completed: '' @
                                              join '', '' (sync_actions @
                                                [''OneDrive Excel '' @ rarrow @ '' Google Sheets''])),
                                            w5)
                                         else
                                           (Inr (False,
                                              ''Failed to sync to Google Sheets: '' @ message),
                                            w5))))))"

text \<open>\<^verbatim>\<open>sync_data\<close>: the body under \<^verbatim>\<open>except Exception as e\<close>.\<close>

definition sync_data :: "lib \<Rightarrow> manager \<Rightarrow> world \<Rightarrow> (exn + bool \<times> string) \<times> world" where
  "sync_data L m w =
     (case sync_data_body L m w of
        (Inl e, w') \<Rightarrow> (except_Exception e (\<lambda>msg. (False, ''Sync error: '' @ msg)), w')
      | (Inr result, w') \<Rightarrow> (Inr result, w'))"

section \<open>Notions used to state the properties\<close>

text \<open>
  Two snapshots differ in a single cell: they have the same shape, and exactly one
  position holds different cells.
\<close>

definition cell_differences :: "'a list list \<Rightarrow> 'a list list \<Rightarrow> nat" where
  "cell_differences a b =
     sum_list (map (\<lambda>(r, r'). length (filter (\<lambda>(c, c'). c \<noteq> c') (zip r r'))) (zip a b))"

definition differ_in_one_cell :: "'a list list \<Rightarrow> 'a list list \<Rightarrow> bool" where
  "differ_in_one_cell a b \<longleftrightarrow>
     map length a = map length b \<and> cell_differences a b = 1"

text \<open>
  No external change between requests: every service gives the same answer whenever it is
  asked.
\<close>

definition steady :: "world \<Rightarrow> bool" where
  "steady w \<longleftrightarrow>
     sheets_execute w = (\<lambda>t. sheets_execute w 0) \<and>
     get_accounts w = (\<lambda>t. get_accounts w 0) \<and>
     acquire_token_silent w = (\<lambda>t. acquire_token_silent w 0) \<and>
     acquire_token_for_client w = (\<lambda>t. acquire_token_for_client w 0) \<and>
     requests_get w = (\<lambda>t. requests_get w 0) \<and>
     requests_put w = (\<lambda>t. requests_put w 0)"

text \<open>The services of \<open>w'\<close> answer as those of \<open>w\<close>.\<close>

definition same_services :: "world \<Rightarrow> world \<Rightarrow> bool" where
  "same_services w w' \<longleftrightarrow>
     sheets_execute w' = sheets_execute w \<and>
     get_accounts w' = get_accounts w \<and>
     acquire_token_silent w' = acquire_token_silent w \<and>
     acquire_token_for_client w' = acquire_token_for_client w \<and>
     requests_get w' = requests_get w \<and>
     requests_put w' = requests_put w"

text \<open>
  Every exception that a service or a library function raises is of class
  \<^verbatim>\<open>Exception\<close>.
\<close>

definition ordinary :: "exn + 'a \<Rightarrow> bool" where
  "ordinary r = (case r of Inl e \<Rightarrow> is_Exception e | Inr x \<Rightarrow> True)"

definition exceptions_only :: "lib \<Rightarrow> world \<Rightarrow> bool" where
  "exceptions_only L w \<longleftrightarrow>
     (\<forall>t. ordinary (sheets_execute w t)) \<and>
     (\<forall>t. ordinary (get_accounts w t)) \<and>
     (\<forall>t. ordinary (acquire_token_silent w t)) \<and>
     (\<forall>t. ordinary (acquire_token_for_client w t)) \<and>
     (\<forall>t. ordinary (requests_get w t)) \<and>
     (\<forall>t. ordinary (requests_put w t)) \<and>
     (\<forall>rws cols. ordinary (pd_DataFrame L rws cols)) \<and>
     (\<forall>s. ordinary (encode L s)) \<and>
     (\<forall>cols rws. ordinary (to_excel L cols rws)) \<and>
     (\<forall>content. ordinary (read_excel L content))"

text \<open>
  The collaborators' answers during one invocation, told from the services themselves.
  The requests are numbered by \<open>tick\<close>: the read of A makes one; fetching a token
  makes two (the cached accounts, then the silent acquisition or, with no account
  cached, the client-credentials flow) or three (the silent acquisition gives no token
  and the client-credentials flow is asked after it); the download and the upload make
  one each.

  \<open>client_refuses w t\<close>: asked at \<open>t\<close>, the client-credentials flow raises or
  gives no token, or an empty one. \<open>token_refused m w t\<close>: a fetch of the token that
  starts at \<open>t\<close> meets a fault (no MSAL application, an exception, no token).
  \<open>token_given m w t n token\<close>: it makes \<open>n\<close> requests and yields \<open>token\<close>.
\<close>

definition client_refuses :: "world \<Rightarrow> nat \<Rightarrow> bool" where
  "client_refuses w t \<longleftrightarrow>
     (\<exists>msg. acquire_token_for_client w t = Inl (Exception msg)) \<or>
     acquire_token_for_client w t = Inr None \<or>
     acquire_token_for_client w t = Inr (Some [])"

definition token_refused :: "manager \<Rightarrow> world \<Rightarrow> nat \<Rightarrow> bool" where
  "token_refused m w t \<longleftrightarrow>
     msal_app m = None \<or>
     (\<exists>msg. get_accounts w t = Inl (Exception msg)) \<or>
     (get_accounts w t = Inr [] \<and> client_refuses w (t + 1)) \<or>
     (\<exists>account accounts. get_accounts w t = Inr (account # accounts) \<and>
        ((\<exists>msg. acquire_token_silent w (t + 1) = Inl (Exception msg)) \<or>
         acquire_token_silent w (t + 1) = Inr (Some (Some [])) \<or>
         (acquire_token_silent w (t + 1) = Inr None \<or>
          acquire_token_silent w (t + 1) = Inr (Some None)) \<and> client_refuses w (t + 2)))"

definition token_given :: "manager \<Rightarrow> world \<Rightarrow> nat \<Rightarrow> nat \<Rightarrow> string \<Rightarrow> bool" where
  "token_given m w t n token \<longleftrightarrow>
     msal_app m \<noteq> None \<and> token \<noteq> [] \<and>
     (get_accounts w t = Inr [] \<and>
        acquire_token_for_client w (t + 1) = Inr (Some token) \<and> n = 2 \<or>
      (\<exists>account accounts. get_accounts w t = Inr (account # accounts) \<and>
         (acquire_token_silent w (t + 1) = Inr (Some (Some token)) \<and> n = 2 \<or>
          (acquire_token_silent w (t + 1) = Inr None \<or>
           acquire_token_silent w (t + 1) = Inr (Some None)) \<and>
          acquire_token_for_client w (t + 2) = Inr (Some token) \<and> n = 3)))"

text \<open>
  \<open>read_A_answers\<close>: the read of A meets a service that is set and answers, rows in
  the sheet, and a frame \<open>(cols, rs)\<close> built from them. \<open>read_B_answers\<close>: after it,
  the token is given with \<open>n\<close> requests, the download is answered with 200 and the
  workbook is read as the frame \<open>(cols, rs)\<close>. \<open>fingerprints_differ\<close>: the string
  forms of the two frames are encoded and their digests differ.
\<close>

definition read_A_answers ::
  "lib \<Rightarrow> manager \<Rightarrow> world \<Rightarrow> string list \<Rightarrow> cell list list \<Rightarrow> bool" where
  "read_A_answers L m w cols rs \<longleftrightarrow>
     google_service m \<noteq> None \<and>
     (\<exists>reply. sheets_execute w (tick w) = Inr reply) \<and>
     (\<exists>header rws. sheet_values w = Some (header # rws) \<and>
        pd_DataFrame L rws header = Inr (cols, rs))"

definition read_B_answers ::
  "lib \<Rightarrow> manager \<Rightarrow> world \<Rightarrow> nat \<Rightarrow> string list \<Rightarrow> cell list list \<Rightarrow> bool" where
  "read_B_answers L m w n cols rs \<longleftrightarrow>
     (\<exists>token. token_given m w (tick w + 1) n token) \<and>
     requests_get w (tick w + 1 + n) = Inr 200 \<and>
     read_excel L (drive_file w) = Inr (cols, rs)"

definition fingerprints_differ ::
  "lib \<Rightarrow> string list \<Rightarrow> cell list list \<Rightarrow> string list \<Rightarrow> cell list list \<Rightarrow> bool" where
  "fingerprints_differ L cols rs cols' rs' \<longleftrightarrow>
     (\<exists>a b. encode L (to_string L cols rs) = Inr a \<and>
        encode L (to_string L cols' rs') = Inr b \<and> md5 L a \<noteq> md5 L b)"

section \<open>A stand-in library and example worlds\<close>

text \<open>
  To run the model on examples, the library functions are given stand-ins that follow
  pandas on frames whose columns hold texts or integers:

  \<^item> \<open>pandas_DataFrame\<close> pads short rows with \<^verbatim>\<open>None\<close> and raises when the width of
    the rows is not the number of column labels;
  \<^item> \<open>pandas_to_string\<close> lays the frame out as \<^verbatim>\<open>DataFrame.to_string()\<close> does: the
    row numbers to the left, every column right-justified to the width of its widest
    entry, the label of a numeric column and every value preceded by a space;
  \<^item> a workbook is the tab-separated text of the frame, and \<open>test_read_excel\<close> reads a
    column whose cells all spell integers as a column of integers, as the type inference
    of \<^verbatim>\<open>pd.read_excel\<close> does, and an empty cell as \<^verbatim>\<open>NaN\<close>;
  \<^item> \<open>py_str_rows\<close> is the \<^verbatim>\<open>repr\<close> of a list of lists of strings that need no
    escaping;
  \<^item> the digest \<open>test_md5\<close> is the number that the bytes spell, modulo \<open>2 ^ 128\<close>.
\<close>

definition rjust :: "nat \<Rightarrow> string \<Rightarrow> string" where
  "rjust n s = replicate (n - length s) (CHR '' '') @ s"

definition ljust :: "nat \<Rightarrow> string \<Rightarrow> string" where
  "ljust n s = s @ replicate (n - length s) (CHR '' '')"

fun is_Number :: "cell \<Rightarrow> bool" where
  "is_Number (Number n) = True"
| "is_Number c = False"

definition numeric_column :: "cell list \<Rightarrow> bool" where
  "numeric_column cs \<longleftrightarrow> cs \<noteq> [] \<and> list_all is_Number cs"

fun format_value :: "bool \<Rightarrow> cell \<Rightarrow> string" where
  "format_value numeric (Text s) = '' '' @ s"
| "format_value numeric (Number n) = (if numeric \<and> n < 0 then str_int n else '' '' @ str_int n)"
| "format_value numeric NoneValue = '' None''"
| "format_value numeric NaN = '' NaN''"

definition max_width :: "string list \<Rightarrow> nat" where
  "max_width xs = foldr max (map length xs) 0"

definition format_column :: "string \<Rightarrow> cell list \<Rightarrow> string list" where
  "format_column label cs =
     (let numeric = numeric_column cs;
          header = (if numeric then '' '' @ label else label);
          entries = header # map (format_value numeric) cs
      in map (rjust (max_width entries)) entries)"

definition format_index :: "nat \<Rightarrow> string list" where
  "format_index n =
     (let entries = [] # map str_nat [0..<n]
      in map (ljust (max_width entries)) entries)"

fun adjoin :: "string list list \<Rightarrow> string list" where
  "adjoin [] = []"
| "adjoin [col] = col"
| "adjoin (col # cols) = map (\<lambda>(a, b). a @ '' '' @ b) (zip col (adjoin cols))"

definition cell_at :: "'a \<Rightarrow> 'a list \<Rightarrow> nat \<Rightarrow> 'a" where
  "cell_at d r j = (if j < length r then r ! j else d)"

definition pandas_to_string :: "string list \<Rightarrow> cell list list \<Rightarrow> string" where
  "pandas_to_string cols rws =
     (if rws = [] then
        ''Empty DataFrame'' @ [CHR 0x0A] @ ''Columns: ['' @ join '', '' cols @ '']'' @
        [CHR 0x0A] @ ''Index: []''
      else
        join [CHR 0x0A]
          (adjoin (format_index (length rws) #
             map (\<lambda>j. format_column (cols ! j) (map (\<lambda>r. cell_at NoneValue r j) rws))
               [0..<length cols])))"

definition pandas_DataFrame ::
  "string list list \<Rightarrow> string list \<Rightarrow> exn + (string list \<times> cell list list)" where
  "pandas_DataFrame rws cols =
     (let width = foldr max (map length rws) 0 in
      if rws \<noteq> [] \<and> width \<noteq> length cols then
        Inl (Exception (str_nat (length cols) @ '' columns passed, passed data had '' @
          str_nat width @ '' columns''))
      else Inr (cols, map (\<lambda>r. map Text r @ replicate (width - length r) NoneValue) rws))"

definition py_str_rows :: "string list list \<Rightarrow> string" where
  "py_str_rows xs =
     ''['' @ join '', ''
        (map (\<lambda>r. ''['' @ join '', '' (map (\<lambda>s. [CHR 0x27] @ s @ [CHR 0x27]) r) @ '']'') xs) @
     '']''"

fun split_on :: "char \<Rightarrow> string \<Rightarrow> string list" where
  "split_on c [] = [[]]"
| "split_on c (x # xs) =
     (if x = c then [] # split_on c xs
      else (case split_on c xs of [] \<Rightarrow> [[x]] | y # ys \<Rightarrow> (x # y) # ys))"

definition is_digits :: "string \<Rightarrow> bool" where
  "is_digits s \<longleftrightarrow> s \<noteq> [] \<and> list_all (\<lambda>c. c \<in> set ''0123456789'') s"

definition nat_of_digits :: "string \<Rightarrow> nat" where
  "nat_of_digits s = foldl (\<lambda>a c. 10 * a + (of_char c - 48)) 0 s"

fun spells_integer :: "string \<Rightarrow> bool" where
  "spells_integer [] = False"
| "spells_integer (c # s) = (if c = CHR ''-'' then is_digits s else is_digits (c # s))"

fun integer_spelled :: "string \<Rightarrow> int" where
  "integer_spelled [] = 0"
| "integer_spelled (c # s) =
     (if c = CHR ''-'' then - int (nat_of_digits s) else int (nat_of_digits (c # s)))"

definition infer_column :: "string list \<Rightarrow> cell list" where
  "infer_column ts =
     (if ts \<noteq> [] \<and> list_all spells_integer ts then map (\<lambda>s. Number (integer_spelled s)) ts
      else map (\<lambda>s. if s = [] then NaN else Text s) ts)"

definition test_read_excel :: "string \<Rightarrow> exn + (string list \<times> cell list list)" where
  "test_read_excel content =
     (case map (split_on (CHR 0x09)) (split_on (CHR 0x0A) content) of
        [] \<Rightarrow> Inl (Exception ''no sheet'')
      | header # rws \<Rightarrow>
          (let columns = map (\<lambda>j. infer_column (map (\<lambda>r. cell_at [] r j) rws)) [0..<length header]
           in Inr (header, map (\<lambda>i. map (\<lambda>col. col ! i) columns) [0..<length rws])))"

fun cell_text :: "cell \<Rightarrow> string" where
  "cell_text (Text s) = s"
| "cell_text (Number n) = str_int n"
| "cell_text NoneValue = []"
| "cell_text NaN = []"

definition test_to_excel :: "string list \<Rightarrow> cell list list \<Rightarrow> exn + string" where
  "test_to_excel cols rws =
     Inr (join [CHR 0x0A] (map (join [CHR 0x09]) (cols # map (map cell_text) rws)))"

definition test_md5 :: "string \<Rightarrow> 128 word" where
  "test_md5 s = of_nat (foldl (\<lambda>a c. 256 * a + of_char c) 0 s)"

definition test_lib :: lib where
  "test_lib =
     \<lparr>pd_DataFrame = pandas_DataFrame,
      to_string = pandas_to_string,
      str_rows = py_str_rows,
      encode = Inr,
      md5 = test_md5,
      to_excel = test_to_excel,
      read_excel = test_read_excel\<rparr>"

definition test_manager :: manager where
  "test_manager = \<lparr>google_service = Some (), msal_app = Some ()\<rparr>"

text \<open>
  A world in which every request is answered without a fault: the spreadsheet holds
  \<open>a\<close>, the workbook file holds \<open>b\<close>.
\<close>

definition test_world :: "string list list option \<Rightarrow> string \<Rightarrow> world" where
  "test_world a b =
     \<lparr>store = (\<lambda>r. PyList []), next_ref = 0, calls = [], tick = 0,
      sheet_values = a,
      sheets_execute = (\<lambda>t. Inr None),
      sheets_formatted = cell_text,
      get_accounts = (\<lambda>t. Inr []),
      acquire_token_silent = (\<lambda>t. Inr None),
      acquire_token_for_client = (\<lambda>t. Inr (Some ''token'')),
      drive_file = b,
      requests_get = (\<lambda>t. Inr 200),
      requests_put = (\<lambda>t. Inr 200)\<rparr>"

text \<open>
  The snapshots of the scenarios: the rows of A, workbooks with the rows of A and with
  \<open>y\<close> for \<open>x\<close>; and rows of texts only, with their workbook.
\<close>

definition rows_A :: "string list list" where
  "rows_A = [[''id'', ''name''], [''1'', ''x'']]"

definition workbook_x :: string where
  "workbook_x = ''id'' @ [CHR 0x09] @ ''name'' @ [CHR 0x0A] @ ''1'' @ [CHR 0x09] @ ''x''"

definition workbook_y :: string where
  "workbook_y = ''id'' @ [CHR 0x09] @ ''name'' @ [CHR 0x0A] @ ''1'' @ [CHR 0x09] @ ''y''"

definition rows_T :: "string list list" where
  "rows_T = [[''key'', ''name''], [''a'', ''x'']]"

definition workbook_T :: string where
  "workbook_T = ''key'' @ [CHR 0x09] @ ''name'' @ [CHR 0x0A] @ ''a'' @ [CHR 0x09] @ ''x''"

text \<open>
  A store with two frames that differ in one cell: \<open>x\<close>, and \<open>x\<close> after a blank.
\<close>

definition padded_frames :: world where
  "padded_frames =
     (test_world None [])\<lparr>store :=
        (\<lambda>r. PyList [])
          (0 := DataFrame [''id'', ''name''] [[Text ''1'', Text ''x'']],
           1 := DataFrame [''id'', ''name''] [[Text ''1'', Text '' x'']])\<rparr>"

section \<open>Properties of the methods\<close>

text \<open>What a handler returns, and what it lets pass.\<close>

lemma except_Exception_Inr:
  "except_Exception e handler = Inr r \<longleftrightarrow> (\<exists>msg. e = Exception msg \<and> r = handler msg)"
  by (cases e) auto

lemma except_Exception_Inl:
  "except_Exception e handler = Inl e' \<longleftrightarrow> \<not> is_Exception e \<and> e' = e"
  by (cases e) auto

text \<open>What each method leaves unchanged in the world, and what it adds to the trace.\<close>

lemma acquire_for_client_frame:
  "store (snd (acquire_for_client w)) = store w \<and>
   next_ref (snd (acquire_for_client w)) = next_ref w \<and>
   calls (snd (acquire_for_client w)) = calls w \<and>
   sheet_values (snd (acquire_for_client w)) = sheet_values w \<and>
   drive_file (snd (acquire_for_client w)) = drive_file w \<and>
   sheets_execute (snd (acquire_for_client w)) = sheets_execute w \<and>
   get_accounts (snd (acquire_for_client w)) = get_accounts w \<and>
   acquire_token_silent (snd (acquire_for_client w)) = acquire_token_silent w \<and>
   acquire_token_for_client (snd (acquire_for_client w)) = acquire_token_for_client w \<and>
   requests_get (snd (acquire_for_client w)) = requests_get w \<and>
   requests_put (snd (acquire_for_client w)) = requests_put w"
  by (simp add: acquire_for_client_def request_made_def split: sum.splits)

lemma get_access_token_frame:
  "store (snd (get_access_token m w)) = store w \<and>
   next_ref (snd (get_access_token m w)) = next_ref w \<and>
   calls (snd (get_access_token m w)) = calls w \<and>
   sheet_values (snd (get_access_token m w)) = sheet_values w \<and>
   drive_file (snd (get_access_token m w)) = drive_file w \<and>
   sheets_execute (snd (get_access_token m w)) = sheets_execute w \<and>
   get_accounts (snd (get_access_token m w)) = get_accounts w \<and>
   acquire_token_silent (snd (get_access_token m w)) = acquire_token_silent w \<and>
   acquire_token_for_client (snd (get_access_token m w)) = acquire_token_for_client w \<and>
   requests_get (snd (get_access_token m w)) = requests_get w \<and>
   requests_put (snd (get_access_token m w)) = requests_put w"
  by (simp add: get_access_token_def acquire_for_client_frame request_made_def Let_def
      split: sum.splits option.splits)

lemma read_google_sheets_data_frame:
  "calls (snd (read_google_sheets_data L m w)) = calls w @ [ReadA] \<and>
   sheet_values (snd (read_google_sheets_data L m w)) = sheet_values w \<and>
   drive_file (snd (read_google_sheets_data L m w)) = drive_file w \<and>
   sheets_execute (snd (read_google_sheets_data L m w)) = sheets_execute w \<and>
   get_accounts (snd (read_google_sheets_data L m w)) = get_accounts w \<and>
   acquire_token_silent (snd (read_google_sheets_data L m w)) = acquire_token_silent w \<and>
   acquire_token_for_client (snd (read_google_sheets_data L m w)) = acquire_token_for_client w \<and>
   requests_get (snd (read_google_sheets_data L m w)) = requests_get w \<and>
   requests_put (snd (read_google_sheets_data L m w)) = requests_put w"
  by (simp add: read_google_sheets_data_def called_def request_made_def new_object_def Let_def
      split: sum.splits option.splits list.splits prod.splits)

lemma read_onedrive_excel_data_frame:
  "calls (snd (read_onedrive_excel_data L m w)) = calls w @ [ReadB] \<and>
   sheet_values (snd (read_onedrive_excel_data L m w)) = sheet_values w \<and>
   drive_file (snd (read_onedrive_excel_data L m w)) = drive_file w \<and>
   sheets_execute (snd (read_onedrive_excel_data L m w)) = sheets_execute w \<and>
   get_accounts (snd (read_onedrive_excel_data L m w)) = get_accounts w \<and>
   acquire_token_silent (snd (read_onedrive_excel_data L m w)) = acquire_token_silent w \<and>
   acquire_token_for_client (snd (read_onedrive_excel_data L m w)) = acquire_token_for_client w \<and>
   requests_get (snd (read_onedrive_excel_data L m w)) = requests_get w \<and>
   requests_put (snd (read_onedrive_excel_data L m w)) = requests_put w"
proof -
  obtain tok w1 where g: "get_access_token m (called ReadB w) = (tok, w1)"
    by (cases "get_access_token m (called ReadB w)")
  from get_access_token_frame [of m "called ReadB w"] g
  have f: "calls w1 = calls w @ [ReadB]" "sheet_values w1 = sheet_values w"
    "drive_file w1 = drive_file w" "sheets_execute w1 = sheets_execute w"
    "get_accounts w1 = get_accounts w" "acquire_token_silent w1 = acquire_token_silent w"
    "acquire_token_for_client w1 = acquire_token_for_client w"
    "requests_get w1 = requests_get w" "requests_put w1 = requests_put w"
    by (simp_all add: called_def)
  show ?thesis
    by (simp add: read_onedrive_excel_data_def g f request_made_def new_object_def Let_def
        split: sum.splits prod.splits)
qed

lemma write_onedrive_excel_data_frame:
  "calls (snd (write_onedrive_excel_data L m d w)) = calls w @ [WriteB d] \<and>
   store (snd (write_onedrive_excel_data L m d w)) = store w \<and>
   next_ref (snd (write_onedrive_excel_data L m d w)) = next_ref w \<and>
   sheet_values (snd (write_onedrive_excel_data L m d w)) = sheet_values w \<and>
   sheets_execute (snd (write_onedrive_excel_data L m d w)) = sheets_execute w \<and>
   get_accounts (snd (write_onedrive_excel_data L m d w)) = get_accounts w \<and>
   acquire_token_silent (snd (write_onedrive_excel_data L m d w)) = acquire_token_silent w \<and>
   acquire_token_for_client (snd (write_onedrive_excel_data L m d w)) = acquire_token_for_client w \<and>
   requests_get (snd (write_onedrive_excel_data L m d w)) = requests_get w \<and>
   requests_put (snd (write_onedrive_excel_data L m d w)) = requests_put w"
proof -
  obtain tok w1 where g: "get_access_token m (called (WriteB d) w) = (tok, w1)"
    by (cases "get_access_token m (called (WriteB d) w)")
  from get_access_token_frame [of m "called (WriteB d) w"] g
  have f: "calls w1 = calls w @ [WriteB d]" "store w1 = store w" "next_ref w1 = next_ref w"
    "sheet_values w1 = sheet_values w" "sheets_execute w1 = sheets_execute w"
    "get_accounts w1 = get_accounts w" "acquire_token_silent w1 = acquire_token_silent w"
    "acquire_token_for_client w1 = acquire_token_for_client w"
    "requests_get w1 = requests_get w" "requests_put w1 = requests_put w"
    by (simp_all add: called_def)
  show ?thesis
    by (simp add: write_onedrive_excel_data_def g f request_made_def
        split: sum.splits)
qed

lemma write_google_sheets_data_frame:
  "calls (snd (write_google_sheets_data L m d w)) = calls w @ [WriteA d] \<and>
   store (snd (write_google_sheets_data L m d w)) = store w \<and>
   next_ref (snd (write_google_sheets_data L m d w)) = next_ref w \<and>
   drive_file (snd (write_google_sheets_data L m d w)) = drive_file w"
  by (simp add: write_google_sheets_data_def called_def request_made_def Let_def
      split: sum.splits)

text \<open>An error message of the read of A is never empty.\<close>

lemma read_google_sheets_data_error:
  "read_google_sheets_data L m w = (Inr (d, Some err), w1) \<Longrightarrow> err \<noteq> []"
  by (auto simp: read_google_sheets_data_def Let_def new_object_def
        except_Exception_Inr
      split: if_splits sum.splits list.splits prod.splits)

lemma calculate_data_hash_world: "snd (calculate_data_hash L d w) = w"
  by (simp add: calculate_data_hash_def Let_def)

lemma excel_content_store: "store w = store w' \<Longrightarrow> excel_content L d w = excel_content L d w'"
  by (cases d) (simp_all add: excel_content_def)

text \<open>A write that reports success has uploaded the workbook made of the data.\<close>

lemma write_onedrive_excel_data_success:
  assumes "write_onedrive_excel_data L m d w = (Inr (True, msg), w')"
  shows "\<exists>content. excel_content L d w = Inr content \<and> drive_file w' = content"
proof -
  obtain tok w1 where g: "get_access_token m (called (WriteB d) w) = (tok, w1)"
    by (cases "get_access_token m (called (WriteB d) w)")
  from get_access_token_frame [of m "called (WriteB d) w"] g
  have "store w1 = store w" by (simp add: called_def)
  then have e: "excel_content L d w1 = excel_content L d w"
    by (rule excel_content_store)
  from assms show ?thesis
    by (auto simp: write_onedrive_excel_data_def g e request_made_def except_Exception_Inr
        split: if_splits sum.splits)
qed

lemma read_google_sheets_data_empty:
  assumes "google_service m \<noteq> None"
      and "sheets_execute w (tick w) = Inr reply"
      and "sheet_values w = None \<or> sheet_values w = Some []"
  shows "fst (read_google_sheets_data L m w) =
           Inr (PyRef (next_ref w), Some ''No data found in Google Sheets'')"
  using assms
  by (auto simp: read_google_sheets_data_def called_def request_made_def new_object_def Let_def)

text \<open>The hexadecimal rendering of a digest determines the digest.\<close>

lemma hex_char_inj: "a < 16 \<Longrightarrow> b < 16 \<Longrightarrow> hex_char a = hex_char b \<Longrightarrow> a = b"
proof -
  assume a: "a < 16" and b: "b < 16" and eq: "hex_char a = hex_char b"
  have d: "distinct ''0123456789abcdef''" by simp
  have l: "length ''0123456789abcdef'' = 16" by simp
  from eq have "''0123456789abcdef'' ! a = ''0123456789abcdef'' ! b"
    by (simp only: hex_char_def)
  with d a b l show "a = b"
    by (simp only: nth_eq_iff_index_eq)
qed

lemma hex_digits_inj:
  "a < 16 ^ n \<Longrightarrow> b < 16 ^ n \<Longrightarrow> hex_digits n a = hex_digits n b \<Longrightarrow> a = b"
proof (induction n arbitrary: a b)
  case 0
  then show ?case by simp
next
  case (Suc n)
  from Suc.prems have da: "a div 16 < 16 ^ n" and db: "b div 16 < 16 ^ n"
    by (simp_all add: less_mult_imp_div_less mult.commute)
  from Suc.prems(3) have hi: "hex_digits n (a div 16) = hex_digits n (b div 16)"
    and lo: "hex_char (a mod 16) = hex_char (b mod 16)"
    by simp_all
  from Suc.IH [OF da db hi] have "a div 16 = b div 16" .
  moreover from lo have "a mod 16 = b mod 16"
    by (intro hex_char_inj) simp_all
  ultimately show ?case
    by (metis div_mult_mod_eq)
qed

lemma hexdigest_inj: "hexdigest a = hexdigest b \<longleftrightarrow> a = b"
proof
  assume eq: "hexdigest a = hexdigest b"
  have "unat a < 2 ^ 128" "unat b < 2 ^ 128"
    using unsigned_less [of a] unsigned_less [of b] by simp_all
  then have "unat a < 16 ^ 32" "unat b < 16 ^ 32"
    by simp_all
  with eq have "unat a = unat b"
    unfolding hexdigest_def by (rule hex_digits_inj [rotated 2])
  then show "a = b"
    by (simp add: word_unat_eq_iff)
qed simp

text \<open>The stand-in library on the snapshots of the scenarios.\<close>

lemma str_nat_0: "str_nat 0 = ''0''"
  by (simp add: str_nat.simps digit_char_def)

lemma str_int_1: "str_int 1 = ''1''"
  by (simp add: str_int_def str_nat.simps digit_char_def)

lemma pandas_DataFrame_x:
  "pandas_DataFrame [[''1'', ''x'']] [''id'', ''name''] =
     Inr ([''id'', ''name''], [[Text ''1'', Text ''x'']])"
  by (simp add: pandas_DataFrame_def)

lemma pandas_DataFrame_T:
  "pandas_DataFrame [[''a'', ''x'']] [''key'', ''name''] =
     Inr ([''key'', ''name''], [[Text ''a'', Text ''x'']])"
  by (simp add: pandas_DataFrame_def)

lemmas to_string_defs =
  pandas_to_string_def format_index_def format_column_def numeric_column_def max_width_def
  rjust_def ljust_def cell_at_def Let_def str_nat_0 str_int_1

lemma pandas_to_string_x:
  "pandas_to_string [''id'', ''name''] [[Text ''1'', Text ''x'']] =
     ''  id name'' @ [CHR 0x0A] @ ''0  1    x''"
  by (simp add: to_string_defs)

lemma pandas_to_string_padded:
  "pandas_to_string [''id'', ''name''] [[Text ''1'', Text '' x'']] =
     ''  id name'' @ [CHR 0x0A] @ ''0  1    x''"
  by (simp add: to_string_defs)

lemma pandas_to_string_number_x:
  "pandas_to_string [''id'', ''name''] [[Number 1, Text ''x'']] =
     ''   id name'' @ [CHR 0x0A] @ ''0   1    x''"
  by (simp add: to_string_defs)

lemma pandas_to_string_number_y:
  "pandas_to_string [''id'', ''name''] [[Number 1, Text ''y'']] =
     ''   id name'' @ [CHR 0x0A] @ ''0   1    y''"
  by (simp add: to_string_defs)

lemma pandas_to_string_T:
  "pandas_to_string [''key'', ''name''] [[Text ''a'', Text ''x'']] =
     ''  key name'' @ [CHR 0x0A] @ ''0   a    x''"
  by (simp add: to_string_defs)

lemmas read_excel_defs =
  test_read_excel_def infer_column_def is_digits_def nat_of_digits_def cell_at_def Let_def

lemma test_read_excel_x:
  "test_read_excel workbook_x = Inr ([''id'', ''name''], [[Number 1, Text ''x'']])"
  by (simp add: read_excel_defs workbook_x_def)

lemma test_read_excel_y:
  "test_read_excel workbook_y = Inr ([''id'', ''name''], [[Number 1, Text ''y'']])"
  by (simp add: read_excel_defs workbook_y_def)

lemma test_read_excel_T:
  "test_read_excel workbook_T = Inr ([''key'', ''name''], [[Text ''a'', Text ''x'']])"
  by (simp add: read_excel_defs workbook_T_def)

lemma test_to_excel_x:
  "test_to_excel [''id'', ''name''] [[Text ''1'', Text ''x'']] = Inr workbook_x"
  by (simp add: test_to_excel_def workbook_x_def)

text \<open>The definitions to unfold when the model is run on an example.\<close>

lemmas run_defs =
  read_google_sheets_data_def read_onedrive_excel_data_def write_onedrive_excel_data_def
  get_access_token_def acquire_for_client_def excel_content_def calculate_data_hash_def
  data_hash_def data_str_def called_def request_made_def new_object_def Let_def
  test_lib_def test_manager_def test_world_def rows_A_def rows_T_def
  pandas_DataFrame_x pandas_DataFrame_T pandas_to_string_x pandas_to_string_padded
  pandas_to_string_number_x pandas_to_string_number_y pandas_to_string_T
  test_read_excel_x test_read_excel_y test_read_excel_T test_to_excel_x

text \<open>
  The services are the same after every method; a fetch of the token, told from the
  services.
\<close>

lemma same_services_refl: "same_services w w"
  by (simp add: same_services_def)

lemma same_services_called: "same_services w w0 \<Longrightarrow> same_services w (called c w0)"
  by (simp add: same_services_def called_def)

lemma same_services_read_google_sheets_data:
  "same_services w w0 \<Longrightarrow> same_services w (snd (read_google_sheets_data L m w0))"
  using read_google_sheets_data_frame [of L m w0] by (simp add: same_services_def)

lemma same_services_read_onedrive_excel_data:
  "same_services w w0 \<Longrightarrow> same_services w (snd (read_onedrive_excel_data L m w0))"
  using read_onedrive_excel_data_frame [of L m w0] by (simp add: same_services_def)

lemma get_access_token_refused:
  assumes "token_refused m w t" and "same_services w w0" and "tick w0 = t"
  shows "\<exists>tok. fst (get_access_token m w0) = Inr tok \<and> \<not> truthy tok"
  using assms
  by (auto simp: token_refused_def client_refuses_def same_services_def get_access_token_def
      acquire_for_client_def request_made_def Let_def)

lemma get_access_token_given:
  assumes "token_given m w t n token" and "same_services w w0" and "tick w0 = t"
  shows "fst (get_access_token m w0) = Inr (Some token) \<and>
         tick (snd (get_access_token m w0)) = t + n"
  using assms
  by (auto simp: token_given_def same_services_def get_access_token_def
      acquire_for_client_def request_made_def Let_def)

text \<open>The two reads and the write, told from the services.\<close>

lemma read_google_sheets_data_answers:
  assumes "read_A_answers L m w cols rs"
  obtains w1 where "read_google_sheets_data L m w = (Inr (PyRef (next_ref w), None), w1)"
    and "tick w1 = tick w + 1" and "same_services w w1" and "drive_file w1 = drive_file w"
    and "store w1 (next_ref w) = DataFrame cols rs" and "next_ref w1 = Suc (next_ref w)"
proof
  let ?w1 = "snd (read_google_sheets_data L m w)"
  from assms show "read_google_sheets_data L m w = (Inr (PyRef (next_ref w), None), ?w1)"
    by (auto simp: read_A_answers_def read_google_sheets_data_def called_def request_made_def
        new_object_def Let_def prod_eq_iff)
  from assms show "tick ?w1 = tick w + 1"
    by (auto simp: read_A_answers_def read_google_sheets_data_def called_def request_made_def
        new_object_def Let_def)
  show "same_services w ?w1"
    by (rule same_services_read_google_sheets_data [OF same_services_refl])
  show "drive_file ?w1 = drive_file w"
    using read_google_sheets_data_frame [of L m w] by simp
  from assms show "store ?w1 (next_ref w) = DataFrame cols rs"
    by (auto simp: read_A_answers_def read_google_sheets_data_def called_def request_made_def
        new_object_def Let_def)
  from assms show "next_ref ?w1 = Suc (next_ref w)"
    by (auto simp: read_A_answers_def read_google_sheets_data_def called_def request_made_def
        new_object_def Let_def)
qed

lemma read_onedrive_excel_data_answers:
  assumes token: "token_given m w t n token" and same: "same_services w w1"
      and time: "tick w1 = t" and download: "requests_get w (t + n) = Inr 200"
      and workbook: "read_excel L (drive_file w1) = Inr (cols, rs)"
  obtains w2 where "read_onedrive_excel_data L m w1 = (Inr (PyRef (next_ref w1), None), w2)"
    and "tick w2 = t + n + 1" and "same_services w w2" and "drive_file w2 = drive_file w1"
    and "store w2 = (store w1)(next_ref w1 := DataFrame cols rs)"
proof -
  obtain tok w1' where g: "get_access_token m (called ReadB w1) = (tok, w1')"
    by (cases "get_access_token m (called ReadB w1)")
  have "tick (called ReadB w1) = t"
    using time by (simp add: called_def)
  from get_access_token_given [OF token same_services_called [OF same] this] g
  have tok: "tok = Inr (Some token)" and time': "tick w1' = t + n"
    by simp_all
  from token have ne: "token \<noteq> []"
    by (simp add: token_given_def)
  from get_access_token_frame [of m "called ReadB w1"] g same
  have f: "store w1' = store w1" "next_ref w1' = next_ref w1" "drive_file w1' = drive_file w1"
    "requests_get w1' = requests_get w" "sheets_execute w1' = sheets_execute w"
    "get_accounts w1' = get_accounts w" "acquire_token_silent w1' = acquire_token_silent w"
    "acquire_token_for_client w1' = acquire_token_for_client w"
    "requests_put w1' = requests_put w"
    by (simp_all add: called_def same_services_def)
  let ?w2 = "snd (read_onedrive_excel_data L m w1)"
  show ?thesis
  proof
    show "read_onedrive_excel_data L m w1 = (Inr (PyRef (next_ref w1), None), ?w2)"
      by (simp add: read_onedrive_excel_data_def g tok ne time' f download workbook
          request_made_def new_object_def Let_def)
    show "tick ?w2 = t + n + 1"
      by (simp add: read_onedrive_excel_data_def g tok ne time' f download workbook
          request_made_def new_object_def Let_def)
    show "same_services w ?w2"
      by (rule same_services_read_onedrive_excel_data [OF same])
    show "drive_file ?w2 = drive_file w1"
      using read_onedrive_excel_data_frame [of L m w1] by simp
    show "store ?w2 = (store w1)(next_ref w1 := DataFrame cols rs)"
      by (simp add: read_onedrive_excel_data_def g tok ne time' f download workbook
          request_made_def new_object_def Let_def)
  qed
qed

lemma read_onedrive_excel_data_faults:
  assumes same: "same_services w w1" and time: "tick w1 = t"
  shows "(token_refused m w t \<longrightarrow>
            fst (read_onedrive_excel_data L m w1) =
              Inr (PyNone, Some ''Failed to get access token for OneDrive'')) \<and>
         (token_given m w t n token \<and> requests_get w (t + n) = Inl (Exception msg) \<longrightarrow>
            fst (read_onedrive_excel_data L m w1) =
              Inr (PyNone, Some (''Error reading OneDrive Excel: '' @ msg))) \<and>
         (token_given m w t n token \<and> requests_get w (t + n) = Inr code \<and> code \<noteq> 200 \<longrightarrow>
            fst (read_onedrive_excel_data L m w1) =
              Inr (PyNone, Some (''Error downloading Excel file: '' @ str_nat code))) \<and>
         (token_given m w t n token \<and> requests_get w (t + n) = Inr 200 \<and>
            read_excel L (drive_file w1) = Inl (Exception msg) \<longrightarrow>
            fst (read_onedrive_excel_data L m w1) =
              Inr (PyNone, Some (''Error reading OneDrive Excel: '' @ msg)))"
proof -
  obtain tok w1' where g: "get_access_token m (called ReadB w1) = (tok, w1')"
    by (cases "get_access_token m (called ReadB w1)")
  have time0: "tick (called ReadB w1) = t"
    using time by (simp add: called_def)
  from get_access_token_frame [of m "called ReadB w1"] g same
  have f: "drive_file w1' = drive_file w1" "requests_get w1' = requests_get w"
    by (simp_all add: called_def same_services_def)
  have refused: "fst (read_onedrive_excel_data L m w1) =
      Inr (PyNone, Some ''Failed to get access token for OneDrive'')"
    if "token_refused m w t"
    using get_access_token_refused [OF that same_services_called [OF same] time0] g
    by (auto simp: read_onedrive_excel_data_def)
  have given: "tok = Inr (Some token) \<and> tick w1' = t + n \<and> token \<noteq> []"
    if "token_given m w t n token"
    using get_access_token_given [OF that same_services_called [OF same] time0] g that
    by (simp add: token_given_def)
  show ?thesis
    using refused given
    by (auto simp: read_onedrive_excel_data_def g f request_made_def)
qed

lemma write_onedrive_excel_data_faults:
  assumes same: "same_services w w2" and time: "tick w2 = t"
      and frame: "store w2 r = DataFrame cols rs"
  shows "(token_refused m w t \<longrightarrow>
            fst (write_onedrive_excel_data L m (PyRef r) w2) =
              Inr (False, ''Failed to get access token for OneDrive'') \<and>
            drive_file (snd (write_onedrive_excel_data L m (PyRef r) w2)) = drive_file w2) \<and>
         (token_given m w t n token \<and> to_excel L cols rs = Inl (Exception msg) \<longrightarrow>
            fst (write_onedrive_excel_data L m (PyRef r) w2) =
              Inr (False, ''Error writing to OneDrive Excel: '' @ msg) \<and>
            drive_file (snd (write_onedrive_excel_data L m (PyRef r) w2)) = drive_file w2) \<and>
         (token_given m w t n token \<and> to_excel L cols rs = Inr content \<and>
            requests_put w (t + n) = Inl (Exception msg) \<longrightarrow>
            fst (write_onedrive_excel_data L m (PyRef r) w2) =
              Inr (False, ''Error writing to OneDrive Excel: '' @ msg) \<and>
            drive_file (snd (write_onedrive_excel_data L m (PyRef r) w2)) = drive_file w2) \<and>
         (token_given m w t n token \<and> to_excel L cols rs = Inr content \<and>
            requests_put w (t + n) = Inr code \<and> code \<noteq> 200 \<and> code \<noteq> 201 \<longrightarrow>
            fst (write_onedrive_excel_data L m (PyRef r) w2) =
              Inr (False, ''Error uploading Excel file: '' @ str_nat code) \<and>
            drive_file (snd (write_onedrive_excel_data L m (PyRef r) w2)) = drive_file w2)"
proof -
  obtain tok w2' where g: "get_access_token m (called (WriteB (PyRef r)) w2) = (tok, w2')"
    by (cases "get_access_token m (called (WriteB (PyRef r)) w2)")
  have time0: "tick (called (WriteB (PyRef r)) w2) = t"
    using time by (simp add: called_def)
  from get_access_token_frame [of m "called (WriteB (PyRef r)) w2"] g same
  have f: "drive_file w2' = drive_file w2" "requests_put w2' = requests_put w"
    "store w2' = store w2"
    by (simp_all add: called_def same_services_def)
  have content: "excel_content L (PyRef r) w2' = to_excel L cols rs"
    by (simp add: excel_content_def f frame)
  have refused: "fst (write_onedrive_excel_data L m (PyRef r) w2) =
      Inr (False, ''Failed to get access token for OneDrive'') \<and>
      drive_file (snd (write_onedrive_excel_data L m (PyRef r) w2)) = drive_file w2"
    if "token_refused m w t"
    using get_access_token_refused [OF that same_services_called [OF same] time0] g
    by (auto simp: write_onedrive_excel_data_def f)
  have given: "tok = Inr (Some token) \<and> tick w2' = t + n \<and> token \<noteq> []"
    if "token_given m w t n token"
    using get_access_token_given [OF that same_services_called [OF same] time0] g that
    by (simp add: token_given_def)
  show ?thesis
    using refused given
    by (auto simp: write_onedrive_excel_data_def g f content request_made_def)
qed

text \<open>The invocation, told from the services: the faults of each stage.\<close>

lemma sync_data_read_A_faults:
  "(google_service m = None \<longrightarrow>
      fst (sync_data L m w) =
        Inr (False, ''Google Sheets error: Google Sheets service not initialized'')) \<and>
   (google_service m \<noteq> None \<and> sheets_execute w (tick w) = Inl (Exception msg) \<longrightarrow>
      fst (sync_data L m w) =
        Inr (False, ''Google Sheets error: Error reading Google Sheets: '' @ msg)) \<and>
   (google_service m \<noteq> None \<and> sheets_execute w (tick w) = Inr reply \<and>
      sheet_values w = Some (header # rws) \<and> pd_DataFrame L rws header = Inl (Exception msg) \<longrightarrow>
      fst (sync_data L m w) =
        Inr (False, ''Google Sheets error: Error reading Google Sheets: '' @ msg))"
  by (auto simp: sync_data_def sync_data_body_def read_google_sheets_data_def called_def
      request_made_def Let_def)

lemma sync_data_read_B_faults:
  assumes read_a: "read_A_answers L m w cols rs"
  shows "(token_refused m w (tick w + 1) \<longrightarrow>
            fst (sync_data L m w) =
              Inr (False, ''OneDrive Excel error: Failed to get access token for OneDrive'')) \<and>
         (token_given m w (tick w + 1) n token \<and>
            requests_get w (tick w + 1 + n) = Inl (Exception msg) \<longrightarrow>
            fst (sync_data L m w) =
              Inr (False, ''OneDrive Excel error: Error reading OneDrive Excel: '' @ msg)) \<and>
         (token_given m w (tick w + 1) n token \<and>
            requests_get w (tick w + 1 + n) = Inr code \<and> code \<noteq> 200 \<longrightarrow>
            fst (sync_data L m w) =
              Inr (False, ''OneDrive Excel error: Error downloading Excel file: '' @
                str_nat code)) \<and>
         (token_given m w (tick w + 1) n token \<and>
            requests_get w (tick w + 1 + n) = Inr 200 \<and>
            read_excel L (drive_file w) = Inl (Exception msg) \<longrightarrow>
            fst (sync_data L m w) =
              Inr (False, ''OneDrive Excel error: Error reading OneDrive Excel: '' @ msg))"
proof -
  from read_a obtain w1
    where ra: "read_google_sheets_data L m w = (Inr (PyRef (next_ref w), None), w1)"
      and t1: "tick w1 = tick w + 1" and s1: "same_services w w1"
      and d1: "drive_file w1 = drive_file w"
    by (rule read_google_sheets_data_answers)
  have run: "fst (sync_data L m w) = Inr (False, ''OneDrive Excel error: '' @ reason)"
    if "fst (read_onedrive_excel_data L m w1) = Inr (PyNone, Some reason)" and "reason \<noteq> []"
    for reason
    using that
    by (cases "read_onedrive_excel_data L m w1") (simp add: sync_data_def sync_data_body_def ra)
  note faults = read_onedrive_excel_data_faults [OF s1 t1, of m L n token msg code]
  have refused: "fst (sync_data L m w) =
      Inr (False, ''OneDrive Excel error: Failed to get access token for OneDrive'')"
    if "token_refused m w (tick w + 1)"
    using faults that run [of "''Failed to get access token for OneDrive''"] by simp
  have raised: "fst (sync_data L m w) =
      Inr (False, ''OneDrive Excel error: Error reading OneDrive Excel: '' @ msg)"
    if "token_given m w (tick w + 1) n token"
      and "requests_get w (tick w + 1 + n) = Inl (Exception msg)"
    using faults that run [of "''Error reading OneDrive Excel: '' @ msg"] by simp
  have answered: "fst (sync_data L m w) =
      Inr (False, ''OneDrive Excel error: Error downloading Excel file: '' @ str_nat code)"
    if "token_given m w (tick w + 1) n token"
      and "requests_get w (tick w + 1 + n) = Inr code" and "code \<noteq> 200"
    using faults that run [of "''Error downloading Excel file: '' @ str_nat code"] by simp
  have unread: "fst (sync_data L m w) =
      Inr (False, ''OneDrive Excel error: Error reading OneDrive Excel: '' @ msg)"
    if "token_given m w (tick w + 1) n token"
      and "requests_get w (tick w + 1 + n) = Inr 200"
      and "read_excel L (drive_file w) = Inl (Exception msg)"
    using faults that run [of "''Error reading OneDrive Excel: '' @ msg"] by (simp add: d1)
  show ?thesis
    using refused raised answered unread by blast
qed

lemma calculate_data_hash_frame:
  "store w r = DataFrame cols rs \<Longrightarrow>
   calculate_data_hash L (PyRef r) w = (data_hash L (to_string L cols rs), w)"
  by (simp add: calculate_data_hash_def data_str_def)

lemma sync_data_hash_faults:
  assumes read_a: "read_A_answers L m w cols rs"
      and read_b: "read_B_answers L m w n cols' rs'"
  shows "(encode L (to_string L cols rs) = Inl (Exception msg) \<longrightarrow>
            fst (sync_data L m w) = Inr (False, ''Sync error: '' @ msg)) \<and>
         (encode L (to_string L cols rs) = Inr a \<and>
            encode L (to_string L cols' rs') = Inl (Exception msg) \<longrightarrow>
            fst (sync_data L m w) = Inr (False, ''Sync error: '' @ msg))"
proof -
  from read_a obtain w1
    where ra: "read_google_sheets_data L m w = (Inr (PyRef (next_ref w), None), w1)"
      and t1: "tick w1 = tick w + 1" and s1: "same_services w w1"
      and d1: "drive_file w1 = drive_file w"
      and o1: "store w1 (next_ref w) = DataFrame cols rs" and n1: "next_ref w1 = Suc (next_ref w)"
    by (rule read_google_sheets_data_answers)
  from read_b obtain token where token: "token_given m w (tick w + 1) n token"
    and download: "requests_get w (tick w + 1 + n) = Inr 200"
    and workbook: "read_excel L (drive_file w1) = Inr (cols', rs')"
    by (auto simp: read_B_answers_def d1)
  from token s1 t1 download workbook obtain w2
    where rb: "read_onedrive_excel_data L m w1 = (Inr (PyRef (next_ref w1), None), w2)"
      and o2: "store w2 = (store w1)(next_ref w1 := DataFrame cols' rs')"
    by (rule read_onedrive_excel_data_answers)
  have ha: "calculate_data_hash L (PyRef (next_ref w)) w2 =
      (data_hash L (to_string L cols rs), w2)"
    by (rule calculate_data_hash_frame) (simp add: o2 n1 o1)
  have hb: "calculate_data_hash L (PyRef (next_ref w1)) w2 =
      (data_hash L (to_string L cols' rs'), w2)"
    by (rule calculate_data_hash_frame) (simp add: o2)
  show ?thesis
    by (auto simp: sync_data_def sync_data_body_def ra rb ha hb data_hash_def)
qed

lemma sync_data_write_faults:
  assumes read_a: "read_A_answers L m w cols rs"
      and read_b: "read_B_answers L m w n cols' rs'"
      and differ: "fingerprints_differ L cols rs cols' rs'"
  shows "(token_refused m w (tick w + n + 2) \<longrightarrow>
            fst (sync_data L m w) =
              Inr (False, ''Failed to sync to Excel: Failed to get access token for OneDrive'') \<and>
            drive_file (snd (sync_data L m w)) = drive_file w) \<and>
         (token_given m w (tick w + n + 2) k token \<and>
            to_excel L cols rs = Inl (Exception msg) \<longrightarrow>
            fst (sync_data L m w) =
              Inr (False, ''Failed to sync to Excel: Error writing to OneDrive Excel: '' @ msg) \<and>
            drive_file (snd (sync_data L m w)) = drive_file w) \<and>
         (token_given m w (tick w + n + 2) k token \<and> to_excel L cols rs = Inr content \<and>
            requests_put w (tick w + n + 2 + k) = Inl (Exception msg) \<longrightarrow>
            fst (sync_data L m w) =
              Inr (False, ''Failed to sync to Excel: Error writing to OneDrive Excel: '' @ msg) \<and>
            drive_file (snd (sync_data L m w)) = drive_file w) \<and>
         (token_given m w (tick w + n + 2) k token \<and> to_excel L cols rs = Inr content \<and>
            requests_put w (tick w + n + 2 + k) = Inr code \<and> code \<noteq> 200 \<and> code \<noteq> 201 \<longrightarrow>
            fst (sync_data L m w) =
              Inr (False, ''Failed to sync to Excel: Error uploading Excel file: '' @
                str_nat code) \<and>
            drive_file (snd (sync_data L m w)) = drive_file w)"
proof -
  from read_a obtain w1
    where ra: "read_google_sheets_data L m w = (Inr (PyRef (next_ref w), None), w1)"
      and t1: "tick w1 = tick w + 1" and s1: "same_services w w1"
      and d1: "drive_file w1 = drive_file w"
      and o1: "store w1 (next_ref w) = DataFrame cols rs" and n1: "next_ref w1 = Suc (next_ref w)"
    by (rule read_google_sheets_data_answers)
  from read_b obtain token' where token: "token_given m w (tick w + 1) n token'"
    and download: "requests_get w (tick w + 1 + n) = Inr 200"
    and workbook: "read_excel L (drive_file w1) = Inr (cols', rs')"
    by (auto simp: read_B_answers_def d1)
  from token s1 t1 download workbook obtain w2
    where rb: "read_onedrive_excel_data L m w1 = (Inr (PyRef (next_ref w1), None), w2)"
      and t2: "tick w2 = tick w + 1 + n + 1" and s2: "same_services w w2"
      and d2: "drive_file w2 = drive_file w1"
      and o2: "store w2 = (store w1)(next_ref w1 := DataFrame cols' rs')"
    by (rule read_onedrive_excel_data_answers)
  have frame: "store w2 (next_ref w) = DataFrame cols rs"
    by (simp add: o2 n1 o1)
  have ha: "calculate_data_hash L (PyRef (next_ref w)) w2 =
      (data_hash L (to_string L cols rs), w2)"
    using frame by (rule calculate_data_hash_frame)
  have hb: "calculate_data_hash L (PyRef (next_ref w1)) w2 =
      (data_hash L (to_string L cols' rs'), w2)"
    by (rule calculate_data_hash_frame) (simp add: o2)
  from differ obtain a b where ea: "encode L (to_string L cols rs) = Inr a"
    and eb: "encode L (to_string L cols' rs') = Inr b" and ne: "md5 L a \<noteq> md5 L b"
    by (auto simp: fingerprints_differ_def)
  have time: "tick w2 = tick w + n + 2"
    by (simp add: t2)
  have run: "fst (sync_data L m w) = Inr (False, ''Failed to sync to Excel: '' @ reason) \<and>
      drive_file (snd (sync_data L m w)) = drive_file w"
    if "fst (write_onedrive_excel_data L m (PyRef (next_ref w)) w2) = Inr (False, reason) \<and>
      drive_file (snd (write_onedrive_excel_data L m (PyRef (next_ref w)) w2)) = drive_file w2"
    for reason
    using that
    by (cases "write_onedrive_excel_data L m (PyRef (next_ref w)) w2")
      (simp add: sync_data_def sync_data_body_def ra rb ha hb data_hash_def ea eb ne
        hexdigest_inj d1 d2)
  note faults = write_onedrive_excel_data_faults [OF s2 time frame, of m L k token msg content code]
  have refused: "fst (sync_data L m w) =
      Inr (False, ''Failed to sync to Excel: Failed to get access token for OneDrive'') \<and>
      drive_file (snd (sync_data L m w)) = drive_file w"
    if "token_refused m w (tick w + n + 2)"
    using faults that run [of "''Failed to get access token for OneDrive''"] by simp
  have unwritten: "fst (sync_data L m w) =
      Inr (False, ''Failed to sync to Excel: Error writing to OneDrive Excel: '' @ msg) \<and>
      drive_file (snd (sync_data L m w)) = drive_file w"
    if "token_given m w (tick w + n + 2) k token" and "to_excel L cols rs = Inl (Exception msg)"
    using faults that run [of "''Error writing to OneDrive Excel: '' @ msg"] by simp
  have raised: "fst (sync_data L m w) =
      Inr (False, ''Failed to sync to Excel: Error writing to OneDrive Excel: '' @ msg) \<and>
      drive_file (snd (sync_data L m w)) = drive_file w"
    if "token_given m w (tick w + n + 2) k token" and "to_excel L cols rs = Inr content"
      and "requests_put w (tick w + n + 2 + k) = Inl (Exception msg)"
    using faults that run [of "''Error writing to OneDrive Excel: '' @ msg"] by simp
  have answered: "fst (sync_data L m w) =
      Inr (False, ''Failed to sync to Excel: Error uploading Excel file: '' @ str_nat code) \<and>
      drive_file (snd (sync_data L m w)) = drive_file w"
    if "token_given m w (tick w + n + 2) k token" and "to_excel L cols rs = Inr content"
      and "requests_put w (tick w + n + 2 + k) = Inr code" and "code \<noteq> 200" and "code \<noteq> 201"
    using faults that run [of "''Error uploading Excel file: '' @ str_nat code"] by simp
  show ?thesis
    using refused unwritten raised answered by blast
qed

text \<open>
  With services and library functions that raise exceptions of class \<^verbatim>\<open>Exception\<close>
  only, no method raises, and the invocation returns a result.
\<close>

lemma exceptions_only_same_services:
  "same_services w w' \<Longrightarrow> exceptions_only L w \<Longrightarrow> exceptions_only L w'"
  by (simp add: same_services_def exceptions_only_def)

lemma ordinary_Inl: "ordinary (Inl e) \<longleftrightarrow> is_Exception e"
  by (simp add: ordinary_def)

lemma ordinary_Inl_eq: "ordinary r \<Longrightarrow> r = Inl e \<Longrightarrow> is_Exception e"
  by (simp add: ordinary_def)

lemma get_access_token_returns:
  assumes "exceptions_only L w"
  shows "fst (get_access_token m w) \<noteq> Inl e"
proof -
  from assms have "ordinary (get_accounts w t)" "ordinary (acquire_token_silent w t)"
    "ordinary (acquire_token_for_client w t)" for t
    by (simp_all add: exceptions_only_def)
  from this [THEN ordinary_Inl_eq] show ?thesis
    by (auto simp: get_access_token_def acquire_for_client_def request_made_def Let_def
        except_Exception_Inl split: sum.splits option.splits)
qed

lemma read_google_sheets_data_returns:
  assumes "exceptions_only L w"
  shows "fst (read_google_sheets_data L m w) \<noteq> Inl e"
proof -
  from assms have "ordinary (sheets_execute w t)" "ordinary (pd_DataFrame L rws cols)"
    for t rws cols
    by (simp_all add: exceptions_only_def)
  from this [THEN ordinary_Inl_eq] show ?thesis
    by (auto simp: read_google_sheets_data_def called_def request_made_def new_object_def
        Let_def except_Exception_Inl split: sum.splits list.splits prod.splits)
qed

lemma read_onedrive_excel_data_returns:
  assumes "exceptions_only L w"
  shows "fst (read_onedrive_excel_data L m w) \<noteq> Inl e"
proof -
  obtain tok w1 where g: "get_access_token m (called ReadB w) = (tok, w1)"
    by (cases "get_access_token m (called ReadB w)")
  have "exceptions_only L (called ReadB w)"
    using assms by (simp add: exceptions_only_def called_def)
  from get_access_token_returns [OF this, of m] g have tok: "tok \<noteq> Inl e'" for e'
    by simp
  from get_access_token_frame [of m "called ReadB w"] g
  have f: "requests_get w1 = requests_get w"
    by (simp add: called_def)
  from assms have "ordinary (requests_get w t)" "ordinary (read_excel L content)"
    for t content
    by (simp_all add: exceptions_only_def)
  from this [THEN ordinary_Inl_eq] tok show ?thesis
    by (auto simp: read_onedrive_excel_data_def g f request_made_def new_object_def
        Let_def except_Exception_Inl split: sum.splits prod.splits)
qed

lemma excel_content_ordinary:
  assumes "exceptions_only L w'"
  shows "excel_content L d w = Inl e \<Longrightarrow> is_Exception e"
proof -
  from assms have "ordinary (to_excel L cols rs)" "ordinary (pd_DataFrame L rws header)"
    for cols rs rws header
    by (simp_all add: exceptions_only_def)
  from this [THEN ordinary_Inl_eq] show "excel_content L d w = Inl e \<Longrightarrow> is_Exception e"
    by (auto simp: excel_content_def split: pyval.splits pyobj.splits list.splits sum.splits
        prod.splits)
qed

lemma write_onedrive_excel_data_returns:
  assumes "exceptions_only L w"
  shows "fst (write_onedrive_excel_data L m d w) \<noteq> Inl e"
proof -
  obtain tok w1 where g: "get_access_token m (called (WriteB d) w) = (tok, w1)"
    by (cases "get_access_token m (called (WriteB d) w)")
  have "exceptions_only L (called (WriteB d) w)"
    using assms by (simp add: exceptions_only_def called_def)
  from get_access_token_returns [OF this, of m] g have tok: "tok \<noteq> Inl e'" for e'
    by simp
  from get_access_token_frame [of m "called (WriteB d) w"] g
  have f: "requests_put w1 = requests_put w"
    by (simp add: called_def)
  from assms have "ordinary (requests_put w t)" for t
    by (simp add: exceptions_only_def)
  from this [THEN ordinary_Inl_eq] tok excel_content_ordinary [OF assms, of d w1]
  show ?thesis
    by (auto simp: write_onedrive_excel_data_def g f request_made_def
        except_Exception_Inl split: sum.splits)
qed

lemma calculate_data_hash_ordinary:
  assumes "exceptions_only L w'"
  shows "fst (calculate_data_hash L d w) = Inl e \<Longrightarrow> is_Exception e"
proof -
  from assms have "ordinary (encode L s)" for s
    by (simp add: exceptions_only_def)
  from this [THEN ordinary_Inl_eq]
  show "fst (calculate_data_hash L d w) = Inl e \<Longrightarrow> is_Exception e"
    by (auto simp: calculate_data_hash_def data_hash_def Let_def split: sum.splits)
qed

lemma sync_data_body_ordinary:
  assumes only: "exceptions_only L w"
  shows "fst (sync_data_body L m w) = Inl e \<Longrightarrow> is_Exception e"
proof -
  assume raised: "fst (sync_data_body L m w) = Inl e"
  obtain ra w1 where a: "read_google_sheets_data L m w = (ra, w1)"
    by (cases "read_google_sheets_data L m w")
  obtain rb w2 where b: "read_onedrive_excel_data L m w1 = (rb, w2)"
    by (cases "read_onedrive_excel_data L m w1")
  have s1: "same_services w w1"
    using same_services_read_google_sheets_data [OF same_services_refl, of w L m] a by simp
  then have only1: "exceptions_only L w1"
    using only by (rule exceptions_only_same_services)
  have s2: "same_services w1 w2"
    using same_services_read_onedrive_excel_data [OF same_services_refl, of w1 L m] b by simp
  then have only2: "exceptions_only L w2"
    using only1 by (rule exceptions_only_same_services)
  have na: "ra \<noteq> Inl e'" for e'
    using read_google_sheets_data_returns [OF only, of m] a by simp
  have nb: "rb \<noteq> Inl e'" for e'
    using read_onedrive_excel_data_returns [OF only1, of m] b by simp
  have nw: "fst (write_onedrive_excel_data L m d w2) \<noteq> Inl e'" for d e'
    using only2 by (rule write_onedrive_excel_data_returns)
  from na obtain google_data google_error where ra: "ra = Inr (google_data, google_error)"
    by (cases ra) auto
  from nb obtain excel_data excel_error where rb: "rb = Inr (excel_data, excel_error)"
    by (cases rb) auto
  obtain x where ha: "calculate_data_hash L google_data w2 = (x, w2)"
    using calculate_data_hash_world [of L google_data w2]
    by (cases "calculate_data_hash L google_data w2") simp
  obtain y where hb: "calculate_data_hash L excel_data w2 = (y, w2)"
    using calculate_data_hash_world [of L excel_data w2]
    by (cases "calculate_data_hash L excel_data w2") simp
  have hx: "x = Inl e' \<Longrightarrow> is_Exception e'" for e'
    using calculate_data_hash_ordinary [OF only2, of google_data w2 e'] ha by simp
  have hy: "y = Inl e' \<Longrightarrow> is_Exception e'" for e'
    using calculate_data_hash_ordinary [OF only2, of excel_data w2 e'] hb by simp
  obtain outcome w3 where wr: "write_onedrive_excel_data L m google_data w2 = (outcome, w3)"
    by (cases "write_onedrive_excel_data L m google_data w2")
  have nw: "outcome \<noteq> Inl e'" for e'
    using write_onedrive_excel_data_returns [OF only2, of m google_data] wr by simp
  from raised hx hy nw show "is_Exception e"
    by (auto simp: sync_data_body_def a b ra rb ha hb wr split: if_splits sum.splits)
qed

lemma sync_data_returns:
  assumes "exceptions_only L w"
  shows "\<exists>success message. fst (sync_data L m w) = Inr (success, message)"
proof (cases "fst (sync_data_body L m w)")
  case (Inl e)
  with assms have "is_Exception e"
    by (intro sync_data_body_ordinary)
  then obtain msg where "e = Exception msg"
    by (cases e) auto
  with Inl show ?thesis
    by (cases "sync_data_body L m w") (auto simp: sync_data_def)
next
  case (Inr r)
  then show ?thesis
    by (cases "sync_data_body L m w"; cases r) (auto simp: sync_data_def)
qed

lemma sync_data_lets_pass:
  "fst (sync_data L m w) = Inl e \<Longrightarrow> \<not> is_Exception e"
  by (cases "sync_data_body L m w")
    (auto simp: sync_data_def except_Exception_Inl split: sum.splits)

text \<open>The stand-in library raises exceptions of class \<^verbatim>\<open>Exception\<close> only.\<close>

lemma ordinary_Inr: "ordinary (Inr x)"
  by (simp add: ordinary_def)

lemma test_lib_ordinary:
  "ordinary (pandas_DataFrame rws cols)" "ordinary (test_read_excel content)"
  "ordinary (test_to_excel cols rs)"
  by (simp_all add: ordinary_def pandas_DataFrame_def test_read_excel_def test_to_excel_def
      Let_def split: list.splits)

lemma pandas_DataFrame_ragged:
  "pandas_DataFrame [[''1'', ''x'', ''z'']] [''id'', ''name''] =
     Inl (Exception ''2 columns passed, passed data had 3 columns'')"
  by (simp add: pandas_DataFrame_def str_nat.simps digit_char_def)

lemmas answers_defs =
  read_A_answers_def read_B_answers_def token_given_def token_refused_def client_refuses_def
  fingerprints_differ_def test_lib_def test_manager_def test_world_def rows_A_def
  pandas_DataFrame_x pandas_to_string_x pandas_to_string_number_y test_read_excel_y
  test_to_excel_x

section \<open>The claims\<close>

text \<open>
  In the statements below, a read "succeeds" when the method returns no error message, the
  fingerprints are the results of \<open>calculate_data_hash\<close>, and the outcomes of the
  specification are the pairs that \<open>sync_data\<close> returns: \<open>Skipped\<close> is
  \<open>(True, ''No differences found - sync skipped'')\<close>, \<open>Applied\<close> from A to B is
  \<open>(True, ''Sync completed: Google Sheets \<rightarrow> OneDrive Excel'')\<close>, and a failure is
  \<open>(False, message)\<close>, the message naming the stage. Source A is the spreadsheet,
  source B the workbook file.
\<close>

subsection \<open>C1: differing fingerprints, A is written to B\<close>

text \<open>
  Claim C1. When both reads succeed and the fingerprints differ, the invocation calls the
  collaborators in the order read A, read B, write B, the write to B being given the
  snapshot that the read of A returned; it never calls the write of A, and the spreadsheet
  is as before. When the write succeeds the result is \<open>Applied\<close> from A to B, and the
  workbook file then holds the workbook made of A's snapshot.
\<close>

theorem sync_applies_A_to_B:
  assumes read_a: "read_google_sheets_data L m w = (Inr (google_data, None), w1)"
      and read_b: "read_onedrive_excel_data L m w1 = (Inr (excel_data, None), w2)"
      and hash_a: "fst (calculate_data_hash L google_data w2) = Inr google_hash"
      and hash_b: "fst (calculate_data_hash L excel_data w2) = Inr excel_hash"
      and differ: "google_hash \<noteq> excel_hash"
  shows "calls (snd (sync_data L m w)) = calls w @ [ReadA, ReadB, WriteB google_data] \<and>
         sheet_values (snd (sync_data L m w)) = sheet_values w \<and>
         ((\<exists>reply. fst (write_onedrive_excel_data L m google_data w2) = Inr (True, reply)) \<longrightarrow>
            fst (sync_data L m w) =
              Inr (True, ''Sync completed: Google Sheets '' @ rarrow @ '' OneDrive Excel'') \<and>
            excel_content L google_data w2 = Inr (drive_file (snd (sync_data L m w))))"
proof -
  obtain outcome w3
    where wr: "write_onedrive_excel_data L m google_data w2 = (outcome, w3)"
    by (cases "write_onedrive_excel_data L m google_data w2") auto
  from read_google_sheets_data_frame [of L m w] read_a
  have a: "calls w1 = calls w @ [ReadA]" "sheet_values w1 = sheet_values w"
    by simp_all
  from read_onedrive_excel_data_frame [of L m w1] read_b
  have b: "calls w2 = calls w1 @ [ReadB]" "sheet_values w2 = sheet_values w1"
    by simp_all
  from write_onedrive_excel_data_frame [of L m google_data w2] wr
  have c: "calls w3 = calls w2 @ [WriteB google_data]" "sheet_values w3 = sheet_values w2"
    by simp_all
  have ha: "calculate_data_hash L google_data w2 = (Inr google_hash, w2)"
    using hash_a calculate_data_hash_world [of L google_data w2] by (simp add: prod_eq_iff)
  have hb: "calculate_data_hash L excel_data w2 = (Inr excel_hash, w2)"
    using hash_b calculate_data_hash_world [of L excel_data w2] by (simp add: prod_eq_iff)
  have world: "snd (sync_data L m w) = w3"
    by (simp add: sync_data_def sync_data_body_def read_a read_b ha hb differ wr
        split: sum.splits prod.splits)
  have applied: "fst (sync_data L m w) =
      Inr (True, ''Sync completed: Google Sheets '' @ rarrow @ '' OneDrive Excel'')"
    if "outcome = Inr (True, reply)" for reply
    using that by (simp add: sync_data_def sync_data_body_def read_a read_b ha hb differ wr)
  have uploaded: "excel_content L google_data w2 = Inr (drive_file w3)"
    if "outcome = Inr (True, reply)" for reply
    using write_onedrive_excel_data_success [of L m google_data w2 reply w3] wr that by auto
  show ?thesis
    using applied uploaded by (auto simp: world wr a b c)
qed

text \<open>
  Scenario 2 of the specification: A holds \<open>[[id, name], [1, x]]\<close>, B the same with
  \<open>y\<close> for \<open>x\<close>.
\<close>

theorem sync_applies_A_to_B_witness:
  "calls (snd (sync_data test_lib test_manager (test_world (Some rows_A) workbook_y))) =
     [ReadA, ReadB, WriteB (PyRef 0)] \<and>
   sheet_values (snd (sync_data test_lib test_manager (test_world (Some rows_A) workbook_y))) =
     Some rows_A \<and>
   fst (sync_data test_lib test_manager (test_world (Some rows_A) workbook_y)) =
     Inr (True, ''Sync completed: Google Sheets '' @ rarrow @ '' OneDrive Excel'') \<and>
   Inr (drive_file (snd (sync_data test_lib test_manager (test_world (Some rows_A) workbook_y)))) =
     (Inr workbook_x :: exn + string)"
proof -
  let ?w = "test_world (Some rows_A) workbook_y"
  let ?w1 = "snd (read_google_sheets_data test_lib test_manager ?w)"
  let ?w2 = "snd (read_onedrive_excel_data test_lib test_manager ?w1)"
  let ?ha = "hexdigest (test_md5 (''  id name'' @ [CHR 0x0A] @ ''0  1    x''))"
  let ?hb = "hexdigest (test_md5 (''   id name'' @ [CHR 0x0A] @ ''0   1    y''))"
  have ra: "read_google_sheets_data test_lib test_manager ?w = (Inr (PyRef 0, None), ?w1)"
    by (simp add: prod_eq_iff run_defs)
  have rb: "read_onedrive_excel_data test_lib test_manager ?w1 = (Inr (PyRef 1, None), ?w2)"
    by (simp add: prod_eq_iff run_defs)
  have ha: "fst (calculate_data_hash test_lib (PyRef 0) ?w2) = Inr ?ha"
    by (simp add: run_defs)
  have hb: "fst (calculate_data_hash test_lib (PyRef 1) ?w2) = Inr ?hb"
    by (simp add: run_defs)
  have ne: "?ha \<noteq> ?hb"
    by (simp add: hexdigest_inj test_md5_def)
  have ok: "\<exists>reply. fst (write_onedrive_excel_data test_lib test_manager (PyRef 0) ?w2) =
      Inr (True, reply)"
    by (simp add: run_defs)
  have ec: "excel_content test_lib (PyRef 0) ?w2 = Inr workbook_x"
    by (simp add: run_defs)
  from sync_applies_A_to_B [OF ra rb ha hb ne] ok ec show ?thesis
    by (simp add: test_world_def)
qed

subsection \<open>C2: equal fingerprints, nothing is written\<close>

text \<open>
  Claim C2. When both reads succeed and the fingerprints are equal, the result is
  \<open>Skipped\<close>; the invocation calls the two reads and no write, and the spreadsheet and
  the workbook file are as before.
\<close>

theorem sync_skips_when_equal:
  assumes read_a: "read_google_sheets_data L m w = (Inr (google_data, None), w1)"
      and read_b: "read_onedrive_excel_data L m w1 = (Inr (excel_data, None), w2)"
      and hash_a: "fst (calculate_data_hash L google_data w2) = Inr google_hash"
      and hash_b: "fst (calculate_data_hash L excel_data w2) = Inr excel_hash"
      and equal: "google_hash = excel_hash"
  shows "fst (sync_data L m w) = Inr (True, ''No differences found - sync skipped'') \<and>
         calls (snd (sync_data L m w)) = calls w @ [ReadA, ReadB] \<and>
         sheet_values (snd (sync_data L m w)) = sheet_values w \<and>
         drive_file (snd (sync_data L m w)) = drive_file w"
proof -
  from read_google_sheets_data_frame [of L m w] read_a
  have a: "calls w1 = calls w @ [ReadA]" "sheet_values w1 = sheet_values w"
    "drive_file w1 = drive_file w"
    by simp_all
  from read_onedrive_excel_data_frame [of L m w1] read_b
  have b: "calls w2 = calls w1 @ [ReadB]" "sheet_values w2 = sheet_values w1"
    "drive_file w2 = drive_file w1"
    by simp_all
  have ha: "calculate_data_hash L google_data w2 = (Inr google_hash, w2)"
    using hash_a calculate_data_hash_world [of L google_data w2] by (simp add: prod_eq_iff)
  have hb: "calculate_data_hash L excel_data w2 = (Inr excel_hash, w2)"
    using hash_b calculate_data_hash_world [of L excel_data w2] by (simp add: prod_eq_iff)
  have run: "sync_data L m w = (Inr (True, ''No differences found - sync skipped''), w2)"
    by (simp add: sync_data_def sync_data_body_def read_a read_b ha hb equal)
  show ?thesis
    by (simp add: run a b)
qed

text \<open>
  A and B hold the same rows of texts, \<open>[[key, name], [a, x]]\<close>: the two frames have
  the same string form.
\<close>

theorem sync_skips_when_equal_witness:
  "fst (sync_data test_lib test_manager (test_world (Some rows_T) workbook_T)) =
     Inr (True, ''No differences found - sync skipped'') \<and>
   calls (snd (sync_data test_lib test_manager (test_world (Some rows_T) workbook_T))) =
     [ReadA, ReadB] \<and>
   sheet_values (snd (sync_data test_lib test_manager (test_world (Some rows_T) workbook_T))) =
     Some rows_T \<and>
   drive_file (snd (sync_data test_lib test_manager (test_world (Some rows_T) workbook_T))) =
     workbook_T"
proof -
  let ?w = "test_world (Some rows_T) workbook_T"
  let ?w1 = "snd (read_google_sheets_data test_lib test_manager ?w)"
  let ?w2 = "snd (read_onedrive_excel_data test_lib test_manager ?w1)"
  let ?h = "hexdigest (test_md5 (''  key name'' @ [CHR 0x0A] @ ''0   a    x''))"
  have ra: "read_google_sheets_data test_lib test_manager ?w = (Inr (PyRef 0, None), ?w1)"
    by (simp add: prod_eq_iff run_defs)
  have rb: "read_onedrive_excel_data test_lib test_manager ?w1 = (Inr (PyRef 1, None), ?w2)"
    by (simp add: prod_eq_iff run_defs)
  have ha: "fst (calculate_data_hash test_lib (PyRef 0) ?w2) = Inr ?h"
    by (simp add: run_defs)
  have hb: "fst (calculate_data_hash test_lib (PyRef 1) ?w2) = Inr ?h"
    by (simp add: run_defs)
  from sync_skips_when_equal [OF ra rb ha hb refl] show ?thesis
    by (simp add: test_world_def)
qed

subsection \<open>C3: a failed read of A stops the invocation\<close>

text \<open>
  Claim C3. When the read of A returns an error message, the result is the failure
  \<open>Google Sheets error: ...\<close> with that message, returned with the world as the read
  left it: the read of A was called once, B was not read, no write was called, and the
  spreadsheet and the workbook file are as before.
\<close>

theorem sync_fails_when_read_A_fails:
  assumes read_a: "read_google_sheets_data L m w = (Inr (google_data, Some reason), w1)"
  shows "fst (sync_data L m w) = Inr (False, ''Google Sheets error: '' @ reason) \<and>
         calls (snd (sync_data L m w)) = calls w @ [ReadA] \<and>
         sheet_values (snd (sync_data L m w)) = sheet_values w \<and>
         drive_file (snd (sync_data L m w)) = drive_file w"
proof -
  have "reason \<noteq> []"
    using read_a by (rule read_google_sheets_data_error)
  then have run: "sync_data L m w = (Inr (False, ''Google Sheets error: '' @ reason), w1)"
    by (simp add: sync_data_def sync_data_body_def read_a)
  from read_google_sheets_data_frame [of L m w] read_a
  have a: "calls w1 = calls w @ [ReadA]" "sheet_values w1 = sheet_values w"
    "drive_file w1 = drive_file w"
    by simp_all
  show ?thesis
    by (simp add: run a)
qed

text \<open>
  Scenario 3 of the specification: the request to the spreadsheet service raises.
\<close>

theorem sync_fails_when_read_A_fails_witness:
  "fst (sync_data test_lib test_manager
      ((test_world (Some rows_A) workbook_y)\<lparr>sheets_execute := \<lambda>t. Inl (Exception ''auth'')\<rparr>)) =
     Inr (False, ''Google Sheets error: Error reading Google Sheets: auth'') \<and>
   calls (snd (sync_data test_lib test_manager
      ((test_world (Some rows_A) workbook_y)\<lparr>sheets_execute := \<lambda>t. Inl (Exception ''auth'')\<rparr>))) =
     [ReadA] \<and>
   drive_file (snd (sync_data test_lib test_manager
      ((test_world (Some rows_A) workbook_y)\<lparr>sheets_execute := \<lambda>t. Inl (Exception ''auth'')\<rparr>))) =
     workbook_y"
proof -
  let ?w = "(test_world (Some rows_A) workbook_y)\<lparr>sheets_execute := \<lambda>t. Inl (Exception ''auth'')\<rparr>"
  let ?w1 = "snd (read_google_sheets_data test_lib test_manager ?w)"
  have ra: "read_google_sheets_data test_lib test_manager ?w =
      (Inr (PyNone, Some ''Error reading Google Sheets: auth''), ?w1)"
    by (simp add: prod_eq_iff run_defs)
  from sync_fails_when_read_A_fails [OF ra] show ?thesis
    by (simp add: test_world_def)
qed

subsection \<open>C4: what the invocation returns when a collaborator fails\<close>

text \<open>
  Claim C4 says that every invocation returns a result and never raises. The handlers
  of the program are \<^verbatim>\<open>except Exception\<close>: an exception that is not of class
  \<^verbatim>\<open>Exception\<close> passes through all of them. Here the request to the spreadsheet
  service is interrupted (\<^verbatim>\<open>KeyboardInterrupt\<close>), and the invocation raises.
\<close>

theorem sync_data_raises_KeyboardInterrupt:
  "fst (sync_data test_lib test_manager
     ((test_world (Some rows_A) workbook_y)\<lparr>sheets_execute := \<lambda>t. Inl KeyboardInterrupt\<rparr>)) =
     Inl KeyboardInterrupt"
  by (simp add: sync_data_def sync_data_body_def run_defs)

text \<open>
  Claim C4, amended. When every exception that a service or a library function raises is
  of class \<^verbatim>\<open>Exception\<close>, the invocation returns a result; and in every case it
  raises no exception of class \<^verbatim>\<open>Exception\<close>. Every fault of a collaborator becomes
  a failure that names the stage, told here from the services themselves:

  \<^item> read of A: the service was never built; the request raises; the frame cannot be
    built from the rows;
  \<^item> read of B, A having answered: the token is refused (no MSAL application, an
    exception, no token); the download raises, is answered with a status other than 200,
    or the workbook cannot be read;
  \<^item> fingerprints, both reads having answered: the string form of a frame cannot be
    encoded;
  \<^item> write of B, the fingerprints differing: the token is refused; the workbook cannot
    be made; the upload raises, or is answered with a status other than 200 and 201. The
    workbook file is then as before.
\<close>

theorem sync_data_converts_faults:
  "(exceptions_only L w \<longrightarrow>
      (\<exists>success message. fst (sync_data L m w) = Inr (success, message))) \<and>
   (\<forall>text. fst (sync_data L m w) \<noteq> Inl (Exception text)) \<and>
   (google_service m = None \<longrightarrow>
      fst (sync_data L m w) =
        Inr (False, ''Google Sheets error: Google Sheets service not initialized'')) \<and>
   (google_service m \<noteq> None \<and> sheets_execute w (tick w) = Inl (Exception msg) \<longrightarrow>
      fst (sync_data L m w) =
        Inr (False, ''Google Sheets error: Error reading Google Sheets: '' @ msg)) \<and>
   (google_service m \<noteq> None \<and> sheets_execute w (tick w) = Inr reply \<and>
      sheet_values w = Some (header # rws) \<and> pd_DataFrame L rws header = Inl (Exception msg) \<longrightarrow>
      fst (sync_data L m w) =
        Inr (False, ''Google Sheets error: Error reading Google Sheets: '' @ msg)) \<and>
   (read_A_answers L m w cols rs \<and> token_refused m w (tick w + 1) \<longrightarrow>
      fst (sync_data L m w) =
        Inr (False, ''OneDrive Excel error: Failed to get access token for OneDrive'')) \<and>
   (read_A_answers L m w cols rs \<and> token_given m w (tick w + 1) n token \<and>
      requests_get w (tick w + 1 + n) = Inl (Exception msg) \<longrightarrow>
      fst (sync_data L m w) =
        Inr (False, ''OneDrive Excel error: Error reading OneDrive Excel: '' @ msg)) \<and>
   (read_A_answers L m w cols rs \<and> token_given m w (tick w + 1) n token \<and>
      requests_get w (tick w + 1 + n) = Inr code \<and> code \<noteq> 200 \<longrightarrow>
      fst (sync_data L m w) =
        Inr (False, ''OneDrive Excel error: Error downloading Excel file: '' @ str_nat code)) \<and>
   (read_A_answers L m w cols rs \<and> token_given m w (tick w + 1) n token \<and>
      requests_get w (tick w + 1 + n) = Inr 200 \<and>
      read_excel L (drive_file w) = Inl (Exception msg) \<longrightarrow>
      fst (sync_data L m w) =
        Inr (False, ''OneDrive Excel error: Error reading OneDrive Excel: '' @ msg)) \<and>
   (read_A_answers L m w cols rs \<and> read_B_answers L m w n cols' rs' \<and>
      encode L (to_string L cols rs) = Inl (Exception msg) \<longrightarrow>
      fst (sync_data L m w) = Inr (False, ''Sync error: '' @ msg)) \<and>
   (read_A_answers L m w cols rs \<and> read_B_answers L m w n cols' rs' \<and>
      encode L (to_string L cols rs) = Inr a \<and>
      encode L (to_string L cols' rs') = Inl (Exception msg) \<longrightarrow>
      fst (sync_data L m w) = Inr (False, ''Sync error: '' @ msg)) \<and>
   (read_A_answers L m w cols rs \<and> read_B_answers L m w n cols' rs' \<and>
      fingerprints_differ L cols rs cols' rs' \<and> token_refused m w (tick w + n + 2) \<longrightarrow>
      fst (sync_data L m w) =
        Inr (False, ''Failed to sync to Excel: Failed to get access token for OneDrive'') \<and>
      drive_file (snd (sync_data L m w)) = drive_file w) \<and>
   (read_A_answers L m w cols rs \<and> read_B_answers L m w n cols' rs' \<and>
      fingerprints_differ L cols rs cols' rs' \<and> token_given m w (tick w + n + 2) k token \<and>
      to_excel L cols rs = Inl (Exception msg) \<longrightarrow>
      fst (sync_data L m w) =
        Inr (False, ''Failed to sync to Excel: Error writing to OneDrive Excel: '' @ msg) \<and>
      drive_file (snd (sync_data L m w)) = drive_file w) \<and>
   (read_A_answers L m w cols rs \<and> read_B_answers L m w n cols' rs' \<and>
      fingerprints_differ L cols rs cols' rs' \<and> token_given m w (tick w + n + 2) k token \<and>
      to_excel L cols rs = Inr content \<and>
      requests_put w (tick w + n + 2 + k) = Inl (Exception msg) \<longrightarrow>
      fst (sync_data L m w) =
        Inr (False, ''Failed to sync to Excel: Error writing to OneDrive Excel: '' @ msg) \<and>
      drive_file (snd (sync_data L m w)) = drive_file w) \<and>
   (read_A_answers L m w cols rs \<and> read_B_answers L m w n cols' rs' \<and>
      fingerprints_differ L cols rs cols' rs' \<and> token_given m w (tick w + n + 2) k token \<and>
      to_excel L cols rs = Inr content \<and>
      requests_put w (tick w + n + 2 + k) = Inr code \<and> code \<noteq> 200 \<and> code \<noteq> 201 \<longrightarrow>
      fst (sync_data L m w) =
        Inr (False, ''Failed to sync to Excel: Error uploading Excel file: '' @ str_nat code) \<and>
      drive_file (snd (sync_data L m w)) = drive_file w)"
proof -
  have returns: "exceptions_only L w \<longrightarrow>
      (\<exists>success message. fst (sync_data L m w) = Inr (success, message))"
    using sync_data_returns [of L w m] by blast
  have passes: "\<forall>text. fst (sync_data L m w) \<noteq> Inl (Exception text)"
    using sync_data_lets_pass [of L m w] by auto
  note read_a = sync_data_read_A_faults [of m L w msg reply header rws]
  have read_b: "read_A_answers L m w cols rs \<Longrightarrow>
      (token_refused m w (tick w + 1) \<longrightarrow>
         fst (sync_data L m w) =
           Inr (False, ''OneDrive Excel error: Failed to get access token for OneDrive'')) \<and>
      (token_given m w (tick w + 1) n token \<and>
         requests_get w (tick w + 1 + n) = Inl (Exception msg) \<longrightarrow>
         fst (sync_data L m w) =
           Inr (False, ''OneDrive Excel error: Error reading OneDrive Excel: '' @ msg)) \<and>
      (token_given m w (tick w + 1) n token \<and>
         requests_get w (tick w + 1 + n) = Inr code \<and> code \<noteq> 200 \<longrightarrow>
         fst (sync_data L m w) =
           Inr (False, ''OneDrive Excel error: Error downloading Excel file: '' @
             str_nat code)) \<and>
      (token_given m w (tick w + 1) n token \<and>
         requests_get w (tick w + 1 + n) = Inr 200 \<and>
         read_excel L (drive_file w) = Inl (Exception msg) \<longrightarrow>
         fst (sync_data L m w) =
           Inr (False, ''OneDrive Excel error: Error reading OneDrive Excel: '' @ msg))"
    by (rule sync_data_read_B_faults)
  have hash: "read_A_answers L m w cols rs \<Longrightarrow> read_B_answers L m w n cols' rs' \<Longrightarrow>
      (encode L (to_string L cols rs) = Inl (Exception msg) \<longrightarrow>
         fst (sync_data L m w) = Inr (False, ''Sync error: '' @ msg)) \<and>
      (encode L (to_string L cols rs) = Inr a \<and>
         encode L (to_string L cols' rs') = Inl (Exception msg) \<longrightarrow>
         fst (sync_data L m w) = Inr (False, ''Sync error: '' @ msg))"
    by (rule sync_data_hash_faults)
  note write_b = sync_data_write_faults [of L m w cols rs n cols' rs' k token msg content code]
  show ?thesis
    apply (intro conjI)
    using returns apply blast
    using passes apply blast
    using read_a apply blast
    using read_a apply blast
    using read_a apply blast
    using read_b apply blast
    using read_b apply blast
    using read_b apply blast
    using read_b apply blast
    using hash apply blast
    using hash apply blast
    using write_b apply blast
    using write_b apply blast
    using write_b apply blast
    using write_b apply blast
    done
qed

text \<open>
  One fault of each stage: a row of the sheet is wider than the header, so that the frame
  cannot be built; no token is given; the download raises; the string form cannot be
  encoded; the upload raises, and the workbook file is as before. And a world in which
  the MSAL application raises: the invocation returns a result.
\<close>

theorem sync_data_converts_faults_witness:
  "fst (sync_data test_lib test_manager
     (test_world (Some [[''id'', ''name''], [''1'', ''x'', ''z'']]) workbook_y)) =
     Inr (False, ''Google Sheets error: Error reading Google Sheets: '' @
       ''2 columns passed, passed data had 3 columns'') \<and>
   fst (sync_data test_lib test_manager
     ((test_world (Some rows_A) workbook_y)\<lparr>acquire_token_for_client := \<lambda>t. Inr None\<rparr>)) =
     Inr (False, ''OneDrive Excel error: Failed to get access token for OneDrive'') \<and>
   fst (sync_data test_lib test_manager
     ((test_world (Some rows_A) workbook_y)\<lparr>requests_get := \<lambda>t. Inl (Exception ''timeout'')\<rparr>)) =
     Inr (False, ''OneDrive Excel error: Error reading OneDrive Excel: timeout'') \<and>
   fst (sync_data (test_lib\<lparr>encode := \<lambda>s. Inl (Exception ''bad string'')\<rparr>) test_manager
     (test_world (Some rows_A) workbook_y)) =
     Inr (False, ''Sync error: bad string'') \<and>
   fst (sync_data test_lib test_manager
     ((test_world (Some rows_A) workbook_y)\<lparr>requests_put := \<lambda>t. Inl (Exception ''reset'')\<rparr>)) =
     Inr (False, ''Failed to sync to Excel: Error writing to OneDrive Excel: reset'') \<and>
   drive_file (snd (sync_data test_lib test_manager
     ((test_world (Some rows_A) workbook_y)\<lparr>requests_put := \<lambda>t. Inl (Exception ''reset'')\<rparr>))) =
     workbook_y \<and>
   (\<exists>success message. fst (sync_data test_lib test_manager
     ((test_world (Some rows_A) workbook_y)\<lparr>get_accounts := \<lambda>t. Inl (Exception ''offline'')\<rparr>)) =
     Inr (success, message))"
proof -
  let ?w = "test_world (Some rows_A) workbook_y"
  let ?cols = "[''id'', ''name'']"
  let ?rs = "[[Text ''1'', Text ''x'']]"
  let ?rs' = "[[Number 1, Text ''y'']]"
  let ?w1 = "test_world (Some [[''id'', ''name''], [''1'', ''x'', ''z'']]) workbook_y"
  have ragged: "fst (sync_data test_lib test_manager ?w1) =
      Inr (False, ''Google Sheets error: Error reading Google Sheets: '' @
        ''2 columns passed, passed data had 3 columns'')"
    by (rule sync_data_converts_faults [where L = test_lib and m = test_manager and w = ?w1
          and reply = None and header = "[''id'', ''name'']" and rws = "[[''1'', ''x'', ''z'']]"
          and msg = "''2 columns passed, passed data had 3 columns''", THEN conjunct2, THEN conjunct2, THEN conjunct2, THEN conjunct2, THEN conjunct1, THEN mp])
      (simp add: test_manager_def test_world_def test_lib_def pandas_DataFrame_ragged)
  let ?w2 = "?w\<lparr>acquire_token_for_client := \<lambda>t. Inr None\<rparr>"
  have refused: "fst (sync_data test_lib test_manager ?w2) =
      Inr (False, ''OneDrive Excel error: Failed to get access token for OneDrive'')"
    by (rule sync_data_converts_faults [where L = test_lib and m = test_manager and w = ?w2
          and cols = ?cols and rs = ?rs, THEN conjunct2, THEN conjunct2, THEN conjunct2, THEN conjunct2, THEN conjunct2, THEN conjunct1, THEN mp])
      (simp add: answers_defs)
  let ?w3 = "?w\<lparr>requests_get := \<lambda>t. Inl (Exception ''timeout'')\<rparr>"
  have download: "fst (sync_data test_lib test_manager ?w3) =
      Inr (False, ''OneDrive Excel error: Error reading OneDrive Excel: '' @ ''timeout'')"
    by (rule sync_data_converts_faults [where L = test_lib and m = test_manager and w = ?w3
          and cols = ?cols and rs = ?rs and n = 2 and token = "''token''"
          and msg = "''timeout''", THEN conjunct2, THEN conjunct2, THEN conjunct2, THEN conjunct2, THEN conjunct2, THEN conjunct2, THEN conjunct1, THEN mp])
      (simp add: answers_defs)
  let ?L = "test_lib\<lparr>encode := \<lambda>s. Inl (Exception ''bad string'')\<rparr>"
  have encoding: "fst (sync_data ?L test_manager ?w) =
      Inr (False, ''Sync error: '' @ ''bad string'')"
    by (rule sync_data_converts_faults [where L = ?L and m = test_manager and w = ?w
          and cols = ?cols and rs = ?rs and n = 2 and cols' = ?cols and rs' = ?rs'
          and msg = "''bad string''", THEN conjunct2, THEN conjunct2, THEN conjunct2, THEN conjunct2, THEN conjunct2, THEN conjunct2, THEN conjunct2, THEN conjunct2, THEN conjunct2, THEN conjunct1, THEN mp])
      (simp add: answers_defs)
  let ?w5 = "?w\<lparr>requests_put := \<lambda>t. Inl (Exception ''reset'')\<rparr>"
  have upload: "fst (sync_data test_lib test_manager ?w5) =
      Inr (False, ''Failed to sync to Excel: Error writing to OneDrive Excel: '' @ ''reset'') \<and>
      drive_file (snd (sync_data test_lib test_manager ?w5)) = drive_file ?w5"
    by (rule sync_data_converts_faults [where L = test_lib and m = test_manager and w = ?w5
          and cols = ?cols and rs = ?rs and n = 2 and cols' = ?cols and rs' = ?rs'
          and k = 2 and token = "''token''" and content = workbook_x
          and msg = "''reset''", THEN conjunct2, THEN conjunct2, THEN conjunct2, THEN conjunct2, THEN conjunct2, THEN conjunct2, THEN conjunct2, THEN conjunct2, THEN conjunct2, THEN conjunct2, THEN conjunct2, THEN conjunct2, THEN conjunct2, THEN conjunct1, THEN mp])
      (simp add: answers_defs test_md5_def)
  let ?w6 = "?w\<lparr>get_accounts := \<lambda>t. Inl (Exception ''offline'')\<rparr>"
  have returns: "\<exists>success message. fst (sync_data test_lib test_manager ?w6) =
      Inr (success, message)"
    by (rule sync_data_converts_faults [where L = test_lib and m = test_manager
          and w = ?w6, THEN conjunct1, THEN mp])
      (simp add: exceptions_only_def test_lib_def test_world_def test_lib_ordinary ordinary_Inl
        ordinary_Inr)
  from ragged refused download encoding upload returns show ?thesis
    by (simp add: test_world_def)
qed

subsection \<open>C5: the fingerprint of snapshots that differ in one cell\<close>

text \<open>
  Claim C5 says that snapshots with identical rows have equal fingerprints, and that
  snapshots differing in a single cell have different fingerprints. The fingerprint of a
  frame is the digest of \<^verbatim>\<open>to_string()\<close>, the layout of the frame for the console,
  which right-justifies every cell to the width of its column. The frames
  \<open>[[id, name], [1, x]]\<close> and the same with a blank before \<open>x\<close> in the cell
  differ in one cell and are laid out alike, so their fingerprints are
  computed and are equal, whatever the digest function; the string forms of the same
  rows as plain lists differ.
\<close>

theorem fingerprint_misses_padded_cell:
  "differ_in_one_cell (cells (store padded_frames 0)) (cells (store padded_frames 1)) \<and>
   (\<forall>digest. \<exists>h.
      fst (calculate_data_hash (test_lib\<lparr>md5 := digest\<rparr>) (PyRef 0) padded_frames) = Inr h \<and>
      fst (calculate_data_hash (test_lib\<lparr>md5 := digest\<rparr>) (PyRef 1) padded_frames) = Inr h) \<and>
   to_string test_lib [''id'', ''name''] [[Text ''1'', Text ''x'']] =
     ''  id name'' @ [CHR 0x0A] @ ''0  1    x'' \<and>
   to_string test_lib [''id'', ''name''] [[Text ''1'', Text '' x'']] =
     ''  id name'' @ [CHR 0x0A] @ ''0  1    x'' \<and>
   str_rows test_lib [[''id'', ''name''], [''1'', ''x'']] \<noteq>
     str_rows test_lib [[''id'', ''name''], [''1'', '' x'']]"
proof -
  have "differ_in_one_cell (cells (store padded_frames 0)) (cells (store padded_frames 1))"
    by (simp add: padded_frames_def differ_in_one_cell_def cell_differences_def)
  moreover have "\<exists>h.
      fst (calculate_data_hash (test_lib\<lparr>md5 := digest\<rparr>) (PyRef 0) padded_frames) = Inr h \<and>
      fst (calculate_data_hash (test_lib\<lparr>md5 := digest\<rparr>) (PyRef 1) padded_frames) = Inr h"
    for digest
    by (simp add: padded_frames_def calculate_data_hash_def data_hash_def data_str_def
        test_lib_def pandas_to_string_x pandas_to_string_padded)
  moreover have "str_rows test_lib [[''id'', ''name''], [''1'', ''x'']] \<noteq>
      str_rows test_lib [[''id'', ''name''], [''1'', '' x'']]"
    by (simp add: test_lib_def py_str_rows_def)
  ultimately show ?thesis
    by (simp add: test_lib_def pandas_to_string_x pandas_to_string_padded)
qed

subsection \<open>C6: a second invocation with no change in between\<close>

text \<open>
  Claim C6 says that the second of two invocations, with no change between them, returns
  \<open>Skipped\<close>. In scenario 2 of the specification (A holds \<open>[[id, name], [1, x]]\<close>,
  B the same with \<open>y\<close> for \<open>x\<close>) and with services that always answer alike, the
  first invocation returns \<open>Applied\<close> and leaves A's rows in the workbook file. The
  second invocation reads the texts \<open>1\<close> and \<open>x\<close> from the sheet and the integer
  \<open>1\<close> and the text \<open>x\<close> from the workbook; the string forms of the two frames
  differ in the header of the numeric column, and so do the fingerprints: the second
  invocation writes B again and returns \<open>Applied\<close>, not \<open>Skipped\<close>. The same
  happens when B holds A's rows from the start (scenario 1).
\<close>

theorem second_sync_applies_again:
  "steady (test_world (Some rows_A) workbook_y) \<and>
   fst (sync_data test_lib test_manager (test_world (Some rows_A) workbook_y)) =
     Inr (True, ''Sync completed: Google Sheets '' @ rarrow @ '' OneDrive Excel'') \<and>
   sheet_values (snd (sync_data test_lib test_manager (test_world (Some rows_A) workbook_y))) =
     Some rows_A \<and>
   drive_file (snd (sync_data test_lib test_manager (test_world (Some rows_A) workbook_y))) =
     workbook_x \<and>
   fst (sync_data test_lib test_manager
     (snd (sync_data test_lib test_manager (test_world (Some rows_A) workbook_y)))) =
     Inr (True, ''Sync completed: Google Sheets '' @ rarrow @ '' OneDrive Excel'') \<and>
   calls (snd (sync_data test_lib test_manager
     (snd (sync_data test_lib test_manager (test_world (Some rows_A) workbook_y))))) =
     [ReadA, ReadB, WriteB (PyRef 0), ReadA, ReadB, WriteB (PyRef 2)] \<and>
   fst (sync_data test_lib test_manager (test_world (Some rows_A) workbook_x)) =
     Inr (True, ''Sync completed: Google Sheets '' @ rarrow @ '' OneDrive Excel'')"
proof -
  let ?w = "test_world (Some rows_A) workbook_y"
  have ne: "hexdigest (test_md5 (''  id name'' @ [CHR 0x0A] @ ''0  1    x'')) \<noteq>
      hexdigest (test_md5 (''   id name'' @ [CHR 0x0A] @ ''0   1    y''))"
    "hexdigest (test_md5 (''  id name'' @ [CHR 0x0A] @ ''0  1    x'')) \<noteq>
      hexdigest (test_md5 (''   id name'' @ [CHR 0x0A] @ ''0   1    x''))"
    by (simp_all add: hexdigest_inj test_md5_def)
  have steady: "steady ?w"
    by (simp add: steady_def test_world_def)
  have first: "fst (sync_data test_lib test_manager ?w) =
      Inr (True, ''Sync completed: Google Sheets '' @ rarrow @ '' OneDrive Excel'')"
    using ne by (simp add: sync_data_def sync_data_body_def run_defs)
  have after: "sheet_values (snd (sync_data test_lib test_manager ?w)) = Some rows_A"
    "drive_file (snd (sync_data test_lib test_manager ?w)) = workbook_x"
    using ne by (simp_all add: sync_data_def sync_data_body_def run_defs)
  have second: "fst (sync_data test_lib test_manager (snd (sync_data test_lib test_manager ?w))) =
      Inr (True, ''Sync completed: Google Sheets '' @ rarrow @ '' OneDrive Excel'')"
    "calls (snd (sync_data test_lib test_manager (snd (sync_data test_lib test_manager ?w)))) =
      [ReadA, ReadB, WriteB (PyRef 0), ReadA, ReadB, WriteB (PyRef 2)]"
    using ne by (simp_all add: sync_data_def sync_data_body_def run_defs)
  have same: "fst (sync_data test_lib test_manager (test_world (Some rows_A) workbook_x)) =
      Inr (True, ''Sync completed: Google Sheets '' @ rarrow @ '' OneDrive Excel'')"
    using ne by (simp add: sync_data_def sync_data_body_def run_defs)
  from steady first after second same show ?thesis
    by simp
qed

subsection \<open>C7: a failed write is reported, and not repeated\<close>

text \<open>
  Claim C7. When both reads succeed, the fingerprints differ and the write to B fails,
  the result is the failure \<open>Failed to sync to Excel: ...\<close> with the message of the
  write, and the write was called exactly once.
\<close>

theorem sync_fails_when_write_fails:
  assumes read_a: "read_google_sheets_data L m w = (Inr (google_data, None), w1)"
      and read_b: "read_onedrive_excel_data L m w1 = (Inr (excel_data, None), w2)"
      and hash_a: "fst (calculate_data_hash L google_data w2) = Inr google_hash"
      and hash_b: "fst (calculate_data_hash L excel_data w2) = Inr excel_hash"
      and differ: "google_hash \<noteq> excel_hash"
      and write_b: "fst (write_onedrive_excel_data L m google_data w2) = Inr (False, reason)"
  shows "fst (sync_data L m w) = Inr (False, ''Failed to sync to Excel: '' @ reason) \<and>
         calls (snd (sync_data L m w)) = calls w @ [ReadA, ReadB, WriteB google_data]"
proof -
  obtain w3 where wr: "write_onedrive_excel_data L m google_data w2 = (Inr (False, reason), w3)"
    using write_b by (cases "write_onedrive_excel_data L m google_data w2") auto
  from read_google_sheets_data_frame [of L m w] read_a
  have a: "calls w1 = calls w @ [ReadA]"
    by simp
  from read_onedrive_excel_data_frame [of L m w1] read_b
  have b: "calls w2 = calls w1 @ [ReadB]"
    by simp
  from write_onedrive_excel_data_frame [of L m google_data w2] wr
  have c: "calls w3 = calls w2 @ [WriteB google_data]"
    by simp
  have ha: "calculate_data_hash L google_data w2 = (Inr google_hash, w2)"
    using hash_a calculate_data_hash_world [of L google_data w2] by (simp add: prod_eq_iff)
  have hb: "calculate_data_hash L excel_data w2 = (Inr excel_hash, w2)"
    using hash_b calculate_data_hash_world [of L excel_data w2] by (simp add: prod_eq_iff)
  have run: "sync_data L m w = (Inr (False, ''Failed to sync to Excel: '' @ reason), w3)"
    by (simp add: sync_data_def sync_data_body_def read_a read_b ha hb differ wr)
  show ?thesis
    by (simp add: run a b c)
qed

text \<open>
  Scenario 4 of the specification: the upload is answered with status 500.
\<close>

theorem sync_fails_when_write_fails_witness:
  "fst (sync_data test_lib test_manager
      ((test_world (Some rows_A) workbook_y)\<lparr>requests_put := \<lambda>t. Inr 500\<rparr>)) =
     Inr (False, ''Failed to sync to Excel: Error uploading Excel file: 500'') \<and>
   calls (snd (sync_data test_lib test_manager
      ((test_world (Some rows_A) workbook_y)\<lparr>requests_put := \<lambda>t. Inr 500\<rparr>))) =
     [ReadA, ReadB, WriteB (PyRef 0)]"
proof -
  let ?w = "(test_world (Some rows_A) workbook_y)\<lparr>requests_put := \<lambda>t. Inr 500\<rparr>"
  let ?w1 = "snd (read_google_sheets_data test_lib test_manager ?w)"
  let ?w2 = "snd (read_onedrive_excel_data test_lib test_manager ?w1)"
  let ?ha = "hexdigest (test_md5 (''  id name'' @ [CHR 0x0A] @ ''0  1    x''))"
  let ?hb = "hexdigest (test_md5 (''   id name'' @ [CHR 0x0A] @ ''0   1    y''))"
  have ra: "read_google_sheets_data test_lib test_manager ?w = (Inr (PyRef 0, None), ?w1)"
    by (simp add: prod_eq_iff run_defs)
  have rb: "read_onedrive_excel_data test_lib test_manager ?w1 = (Inr (PyRef 1, None), ?w2)"
    by (simp add: prod_eq_iff run_defs)
  have ha: "fst (calculate_data_hash test_lib (PyRef 0) ?w2) = Inr ?ha"
    by (simp add: run_defs)
  have hb: "fst (calculate_data_hash test_lib (PyRef 1) ?w2) = Inr ?hb"
    by (simp add: run_defs)
  have ne: "?ha \<noteq> ?hb"
    by (simp add: hexdigest_inj test_md5_def)
  have wr: "fst (write_onedrive_excel_data test_lib test_manager (PyRef 0) ?w2) =
      Inr (False, ''Error uploading Excel file: 500'')"
    by (simp add: run_defs str_nat.simps digit_char_def)
  from sync_fails_when_write_fails [OF ra rb ha hb ne wr] show ?thesis
    by (simp add: test_world_def)
qed

subsection \<open>C8: the snapshot is not changed by the fingerprint or by a write\<close>

text \<open>
  Claim C8. The fingerprint computation and the two write methods leave every object of
  the store as it was, in particular the snapshot they were given: after
  \<open>calculate_data_hash\<close>, \<open>write_onedrive_excel_data\<close> or
  \<open>write_google_sheets_data\<close> the store equals the store before the call.
\<close>

theorem snapshot_unchanged:
  "store (snd (calculate_data_hash L data w)) = store w \<and>
   store (snd (write_onedrive_excel_data L m data w)) = store w \<and>
   store (snd (write_google_sheets_data L m data w)) = store w"
  using write_onedrive_excel_data_frame [of L m data w]
    write_google_sheets_data_frame [of L m data w]
  by (simp add: calculate_data_hash_world)

text \<open>
  A write that succeeds changes the workbook file and leaves the snapshot as it was.
\<close>

theorem snapshot_unchanged_witness:
  "store (snd (write_onedrive_excel_data test_lib test_manager (PyRef 0)
      ((test_world (Some rows_A) workbook_y)\<lparr>store :=
         \<lambda>r. DataFrame [''id'', ''name''] [[Text ''1'', Text ''x'']]\<rparr>))) 0 =
     DataFrame [''id'', ''name''] [[Text ''1'', Text ''x'']] \<and>
   drive_file (snd (write_onedrive_excel_data test_lib test_manager (PyRef 0)
      ((test_world (Some rows_A) workbook_y)\<lparr>store :=
         \<lambda>r. DataFrame [''id'', ''name''] [[Text ''1'', Text ''x'']]\<rparr>))) =
     workbook_x"
proof -
  let ?w = "(test_world (Some rows_A) workbook_y)\<lparr>store :=
      \<lambda>r. DataFrame [''id'', ''name''] [[Text ''1'', Text ''x'']]\<rparr>"
  have "store (snd (write_onedrive_excel_data test_lib test_manager (PyRef 0) ?w)) = store ?w"
    using snapshot_unchanged [of test_lib "PyRef 0" ?w test_manager] by simp
  moreover have "drive_file (snd (write_onedrive_excel_data test_lib test_manager (PyRef 0) ?w)) =
      workbook_x"
    by (simp add: run_defs)
  ultimately show ?thesis
    by simp
qed

subsection \<open>C9: the status page reports the two handles\<close>

text \<open>
  Claim C9. The status object has three entries: one for source A (key
  \<open>google_sheets\<close>), one for source B (key \<open>onedrive\<close>) and the timestamp. The
  first two are \<open>OK\<close> or \<open>Not configured\<close>, according to whether the handle of
  the manager is set, that is, whether its initialisation at startup succeeded: for A the
  credentials file exists, loads and the service is built; for B the MSAL application is
  constructed. Nothing else enters: the handler reads the manager and the clock only.
\<close>

theorem status_reports_handles:
  "status m now =
     [(''google_sheets'', if google_service m = None then ''Not configured'' else ''OK''),
      (''onedrive'', if msal_app m = None then ''Not configured'' else ''OK''),
      (''timestamp'', now)] \<and>
   status (DataSyncManager s) now =
     [(''google_sheets'',
         if credentials_exist s \<and> credentials_fault s = None \<and> build_fault s = None
         then ''OK'' else ''Not configured''),
      (''onedrive'', if msal_fault s = None then ''OK'' else ''Not configured''),
      (''timestamp'', now)]"
  by (simp add: status_def DataSyncManager_def init_google_service_def init_msal_app_def
      split: option.splits)

text \<open>
  Startup without \<^verbatim>\<open>credentials.json\<close>, as in the demo.
\<close>

theorem status_reports_handles_witness:
  "status (DataSyncManager \<lparr>credentials_exist = False, credentials_fault = None,
      build_fault = None, msal_fault = None\<rparr>) ''2025-01-01T00:00:00'' =
     [(''google_sheets'', ''Not configured''), (''onedrive'', ''OK''),
      (''timestamp'', ''2025-01-01T00:00:00'')]"
proof -
  let ?s = "\<lparr>credentials_exist = False, credentials_fault = None,
      build_fault = None, msal_fault = None\<rparr>"
  from status_reports_handles [of "DataSyncManager ?s" "''2025-01-01T00:00:00''" ?s]
  have "status (DataSyncManager ?s) ''2025-01-01T00:00:00'' =
     [(''google_sheets'',
         if credentials_exist ?s \<and> credentials_fault ?s = None \<and> build_fault ?s = None
         then ''OK'' else ''Not configured''),
      (''onedrive'', if msal_fault ?s = None then ''OK'' else ''Not configured''),
      (''timestamp'', ''2025-01-01T00:00:00'')]"
    by (rule conjunct2)
  then show ?thesis
    by simp
qed

subsection \<open>C10: an empty spreadsheet is reported as an error of A\<close>

text \<open>
  Claim C10. When the spreadsheet service answers the read of A and the reply holds no
  rows (no \<^verbatim>\<open>'values'\<close> entry, or an empty one), the result is the failure
  \<open>Google Sheets error: No data found in Google Sheets\<close>; only the read of A was
  called, so the empty snapshot is neither compared nor written, and the spreadsheet and
  the workbook file are as before.
\<close>

theorem sync_fails_on_empty_sheet:
  assumes service: "google_service m \<noteq> None"
      and reply: "sheets_execute w (tick w) = Inr reply"
      and empty: "sheet_values w = None \<or> sheet_values w = Some []"
  shows "fst (sync_data L m w) =
           Inr (False, ''Google Sheets error: No data found in Google Sheets'') \<and>
         calls (snd (sync_data L m w)) = calls w @ [ReadA] \<and>
         sheet_values (snd (sync_data L m w)) = sheet_values w \<and>
         drive_file (snd (sync_data L m w)) = drive_file w"
proof -
  obtain w1 where read_a: "read_google_sheets_data L m w =
      (Inr (PyRef (next_ref w), Some ''No data found in Google Sheets''), w1)"
    using read_google_sheets_data_empty [OF service reply empty, of L]
    by (cases "read_google_sheets_data L m w") auto
  have run: "sync_data L m w =
      (Inr (False, ''Google Sheets error: No data found in Google Sheets''), w1)"
    by (simp add: sync_data_def sync_data_body_def read_a)
  from read_google_sheets_data_frame [of L m w] read_a
  have a: "calls w1 = calls w @ [ReadA]" "sheet_values w1 = sheet_values w"
    "drive_file w1 = drive_file w"
    by simp_all
  show ?thesis
    by (simp add: run a)
qed

text \<open>
  The spreadsheet's reply has no \<^verbatim>\<open>'values'\<close> entry.
\<close>

theorem sync_fails_on_empty_sheet_witness:
  "fst (sync_data test_lib test_manager (test_world None workbook_y)) =
     Inr (False, ''Google Sheets error: No data found in Google Sheets'') \<and>
   calls (snd (sync_data test_lib test_manager (test_world None workbook_y))) = [ReadA] \<and>
   sheet_values (snd (sync_data test_lib test_manager (test_world None workbook_y))) = None \<and>
   drive_file (snd (sync_data test_lib test_manager (test_world None workbook_y))) = workbook_y"
proof -
  have service: "google_service test_manager \<noteq> None"
    by (simp add: test_manager_def)
  have reply: "sheets_execute (test_world None workbook_y) (tick (test_world None workbook_y)) =
      Inr None"
    by (simp add: test_world_def)
  have empty: "sheet_values (test_world None workbook_y) = None \<or>
      sheet_values (test_world None workbook_y) = Some []"
    by (simp add: test_world_def)
  from sync_fails_on_empty_sheet [OF service reply empty, of test_lib] show ?thesis
    by (simp add: test_world_def)
qed

end
